theory Spec2Isabelle
  imports Complex_Main
begin

section \<open>JavaScript values used by the services\<close>

text \<open>
  Exceptions are values. The constructors are the JavaScript error classes the modelled
  code can raise; the string is the \<open>message\<close> property, which the catch blocks log.
  A number (\<open>parseFloat(event.price)\<close>, \<open>maxAmount\<close>, \<open>monthlySpendLimit\<close>, a ledger
  total) is modelled by the rational it denotes; \<open>NaN\<close> and the infinities are outside the
  model. Comparing two numbers is exact. Adding two numbers is not: the engine returns the
  double nearest to the sum. The rounding is not defined here: the addition is a parameter,
  \<open>plus\<close> of the collaborators below, and every statement about a sum is about \<open>plus\<close>.
\<close>

datatype error =
    Error string
  | TypeError string
  | ReferenceError string
  | SyntaxError string

fun message :: "error \<Rightarrow> string" where
  "message (Error m) = m"
| "message (TypeError m) = m"
| "message (ReferenceError m) = m"
| "message (SyntaxError m) = m"

text \<open>\<open>String(n)\<close> for a non-negative integer id, as template literals print it.\<close>

definition digit :: "nat \<Rightarrow> char" where
  "digit d = (''0123456789'' ! d)"

function toString :: "nat \<Rightarrow> string" where
  "toString n = (if n < 10 then [digit n] else toString (n div 10) @ [digit (n mod 10)])"
  by pat_completeness auto
termination
  by (relation "measure (\<lambda>n. n)") auto

declare toString.simps [simp del]

text \<open>\<open>String.prototype.toLowerCase\<close> and the upper-case canonical form the RegExp
  \<open>i\<close> flag compares, both on ASCII letters (domain names and addresses are ASCII).\<close>

definition lowerOf :: "char \<Rightarrow> char" where
  "lowerOf c = (case map_of (zip ''ABCDEFGHIJKLMNOPQRSTUVWXYZ'' ''abcdefghijklmnopqrstuvwxyz'') c of
      Some l \<Rightarrow> l | None \<Rightarrow> c)"

definition upperOf :: "char \<Rightarrow> char" where
  "upperOf c = (case map_of (zip ''abcdefghijklmnopqrstuvwxyz'' ''ABCDEFGHIJKLMNOPQRSTUVWXYZ'') c of
      Some u \<Rightarrow> u | None \<Rightarrow> c)"

definition toLowerCase :: "string \<Rightarrow> string" where
  "toLowerCase s = map lowerOf s"

section \<open>Users (src/database/models/user.js)\<close>

record user =
  u_id :: nat
  subscriptionTier :: string
  u_isActive :: bool
  monthlySpendLimit :: "rat option"
  walletAddress :: "string option"

text \<open>
  The database is an external collaborator whose calls can reject. \<open>dbFails\<close> says, for
  each statement the modelled code issues, whether \<open>database.get/all/run\<close> rejects and
  with which error (the insert into \<open>alert_logs\<close> by the status it writes).
\<close>

datatype dbOp =
    SelectUser
  | SelectAlerts
  | UpdateAlertTrigger
  | InsertAlertLog string
  | SelectAutoActions
  | InsertAutoActionLog
  | UpdateAutoActionCount


definition orElse :: "rat option \<Rightarrow> rat \<Rightarrow> rat" where
  \<comment> \<open>\<open>v || d\<close> on a nullable number: \<open>null\<close>, \<open>undefined\<close> and \<open>0\<close> are falsy.\<close>
  "orElse v d = (case v of None \<Rightarrow> d | Some x \<Rightarrow> if x = 0 then d else x)"

section \<open>Data model of the auto-actions service\<close>

record blockData =
  transactionHash :: string
  blockNumber :: nat

text \<open>
  One record for the events the contract monitor emits. \<open>price\<close> is the value of
  \<open>parseFloat(event.price)\<close>; \<open>e_type\<close> is the sale event's \<open>type\<close>; a missing
  \<open>blockData\<close>, \<open>urgency\<close>, \<open>seller\<close> or \<open>owner\<close> property is \<open>None\<close>.
\<close>

record event =
  e_type :: string
  e_domain :: string
  daysUntilExpiry :: int
  urgency :: "string option"
  price :: rat
  seller :: "string option"
  owner :: "string option"
  blockData :: "blockData option"

record autoConditions =
  daysBeforeExpiry :: "int option"
  ac_minUrgency :: "string option"
  renewalDuration :: "nat option"
  ac_maxPrice :: "rat option"
  ac_minPrice :: "rat option"
  ac_domainPatterns :: "string list option"
  targetDomains :: "string list option"
  excludeSellers :: "string list option"

record autoAction =
  aa_id :: nat
  aa_userId :: nat
  aa_type :: string
  aa_conditions :: autoConditions
  maxAmount :: rat
  aa_isActive :: bool
  executionCount :: nat
  lastExecuted :: "int option"

datatype signer = Signer string

record receipt =
  r_transactionHash :: string
  gasUsed :: string

record autoActionLog =
  l_actionId :: nat
  l_userId :: nat
  l_domain :: string
  l_amount :: rat
  l_transactionHash :: "string option"
  l_status :: string
  l_errorMessage :: "string option"

datatype autoEmit =
    AutoActionExecuted string nat string string "rat option"
  | AutoActionFailed string nat string string

record activeEntry =
  startTime :: int
  ae_action :: autoAction
  ae_event :: event

text \<open>
  The service's two in-memory maps (\<open>activeActions\<close>, \<open>monthlySpending\<close>), the database
  tables it writes, and the events it has emitted. The table \<open>transaction_logs\<close> is not
  part of the state: the only statement that writes to it is rejected (see \<open>trackSpending\<close>).
\<close>

record autoState =
  activeActions :: "string \<rightharpoonup> activeEntry"
  monthlySpending :: "string \<rightharpoonup> rat"
  auto_actions :: "autoAction list"
  auto_action_logs :: "autoActionLog list"
  autoEmitted :: "autoEmit list"

section \<open>Data model of the alert service\<close>

record alertConditions =
  daysThreshold :: "int option"
  minUrgency :: "string option"
  maxPrice :: "rat option"
  minPrice :: "rat option"
  saleTypes :: "string list option"
  domainPatterns :: "string list option"

text \<open>
  A row of the \<open>alerts\<close> table and the object the lookups make of it have the same
  columns and differ in \<open>conditions\<close>: the row holds JSON text, the object the parsed value.
  In a row (\<open>alertRow\<close>) the cell is what \<open>JSON.parse(conditions || '{}')\<close> makes of the
  text: \<open>None\<close> when it throws (\<open>updateAlert\<close> stores a string given as \<open>conditions\<close> as it
  is), \<open>Some c\<close> when the text is that of an object with the properties \<open>c\<close>. The text of
  another JSON value is not modelled.
\<close>

record 'c alertOf =
  a_id :: nat
  a_userId :: nat
  a_type :: string
  a_domain :: "string option"
  a_domainPattern :: "string option"
  a_conditions :: 'c
  platform :: string
  a_isActive :: bool
  triggerCount :: nat
  lastTriggered :: "int option"

type_synonym alert = "alertConditions alertOf"

type_synonym alertRow = "alertConditions option alertOf"

text \<open>
  The object \<open>sendAlert\<close> receives. Its \<open>daysUntilExpiry\<close>, \<open>saleType\<close> and \<open>price\<close> copies
  of the event's fields are read from \<open>ad_data\<close>; \<open>ad_urgency\<close> is \<open>None\<close> for a sale
  alert, whose object has no \<open>urgency\<close> property.
\<close>

record alertData =
  ad_type :: string
  alertId :: nat
  ad_userId :: nat
  ad_domain :: string
  ad_urgency :: "string option"
  ad_platform :: string
  ad_data :: event

text \<open>
  An \<open>alert\<close> event handed to the listeners (the notifier bots). The formatted message,
  the buttons and the timestamp it also carries are not modelled.
\<close>

record alertEmission =
  em_data :: alertData
  em_user :: user

record alertLog =
  al_alertId :: nat
  al_userId :: nat
  al_eventType :: string
  al_eventData :: event
  al_status :: string
  al_platform :: string

text \<open>
  The alert service's set of processed event ids (a JavaScript \<open>Set\<close>: distinct, in
  insertion order), the tables it reads and writes, and the alerts it has emitted.
\<close>

record alertState =
  processedEvents :: "string list"
  alerts :: "alertRow list"
  alert_logs :: "alertLog list"
  emitted :: "alertEmission list"

section \<open>Collaborators\<close>

text \<open>
  What the service reads from outside: the users table, the failures of the database, the
  clock (\<open>Date.now()\<close> and the \<open>YYYY-MM\<close> prefix of the ISO date), the domain service's
  transactions, the SQL engine's verdict on the \<open>JSON_EXTRACT ... LIKE\<close> criterion of
  \<open>getAutoActions\<close>, and whether a listener of the \<open>alert\<close> event throws, which makes
  \<open>emit\<close> throw. The logger is taken not to throw. Two operations of the JavaScript engine
  are parameters as well: \<open>plus\<close>, the addition of two numbers, and \<open>otherRegExp\<close>, what
  \<open>new RegExp(src, 'i')\<close> gives (the exception, or the compiled expression's \<open>test\<close>) for a
  source outside the fragment of the grammar that is modelled below.

  A run of an asynchronous method is modelled as one function from the state before to
  the state after: the collaborators answer the same way throughout a run, the clock
  does not move during it, and two runs are not interleaved at their \<open>await\<close>s.
\<close>

record env =
  users :: "user list"
  dbFails :: "dbOp \<Rightarrow> error option"
  dateNow :: int
  currentMonth :: string
  renewDomain :: "string \<Rightarrow> nat \<Rightarrow> signer \<Rightarrow> error + receipt"
  buyDomain :: "string \<Rightarrow> signer \<Rightarrow> error + receipt"
  sqlDomainLike :: "string \<Rightarrow> autoAction \<Rightarrow> bool"
  listenerThrows :: "alertEmission \<Rightarrow> error option"
  plus :: "rat \<Rightarrow> rat \<Rightarrow> rat"
  otherRegExp :: "string \<Rightarrow> error + (string \<Rightarrow> bool)"

definition getUserById :: "env \<Rightarrow> nat \<Rightarrow> error + user option" where
  "getUserById env uid =
     (case dbFails env SelectUser of
        Some e \<Rightarrow> Inl e
      | None \<Rightarrow> Inr (find (\<lambda>u. u_id u = uid) (users env)))"

section \<open>Spending ledger (AutoActionsService.checkSpendingLimits, trackSpending)\<close>

definition spendingKey :: "nat \<Rightarrow> string \<Rightarrow> string" where
  "spendingKey userId month = toString userId @ ''_'' @ month"

definition currentSpending :: "env \<Rightarrow> autoState \<Rightarrow> nat \<Rightarrow> rat" where
  "currentSpending env s userId =
     orElse (monthlySpending s (spendingKey userId (currentMonth env))) 0"

definition monthlyLimit :: "user \<Rightarrow> rat" where
  "monthlyLimit u = orElse (monthlySpendLimit u) 200"

definition checkSpendingLimits :: "env \<Rightarrow> autoState \<Rightarrow> nat \<Rightarrow> rat \<Rightarrow> bool" where
  "checkSpendingLimits env s userId amount =
     (case getUserById env userId of
        Inl e \<Rightarrow> False
      | Inr None \<Rightarrow> False
      | Inr (Some u) \<Rightarrow> plus env (currentSpending env s userId) amount \<le> monthlyLimit u)"

text \<open>
  \<open>trackSpending\<close> sets the map entry and then inserts into \<open>transaction_logs\<close>, naming the
  columns \<open>userId, type, amount, token, status, createdAt\<close>. The table declares
  \<open>transactionHash TEXT NOT NULL\<close> with no default (the schema of database/init.js, file
  unnamed/part_003), so the insert is rejected whatever the tables hold; the \<open>catch\<close>
  block logs the error. What is left of the call is the map entry.
\<close>

definition trackSpending :: "env \<Rightarrow> autoState \<Rightarrow> nat \<Rightarrow> rat \<Rightarrow> autoState" where
  "trackSpending env s userId amount =
     (let key = spendingKey userId (currentMonth env)
      in s\<lparr>monthlySpending := (monthlySpending s)(key \<mapsto> plus env (currentSpending env s userId) amount)\<rparr>)"


section \<open>The RegExp fragment that domain patterns compile to\<close>

text \<open>
  Both services turn a pattern string into a regular expression with \<open>new RegExp(src, 'i')\<close>
  and call \<open>test\<close>. The model covers the part of the RegExp grammar such sources use: the
  assertions \<open>^\<close> and \<open>$\<close>, the atom \<open>.\<close> (any character but a line terminator), literal
  characters, and the quantifier \<open>*\<close> on an atom. A \<open>*\<close> with nothing to repeat (first in
  the source, after an assertion or after another \<open>*\<close>) is the SyntaxError the constructor
  throws. The other metacharacters of the grammar (\<open>+ ? ( ) [ ] { } |\<close> and the backslash)
  are outside this fragment: for a source that holds one, \<open>compileRegExp\<close> asks the engine
  (\<open>otherRegExp\<close>) and \<open>newRegExp\<close> is not consulted.
\<close>

datatype atom = AnyChar | Lit char

datatype item = Bol | Eol | One atom | Star atom

definition unmodelled :: "char \<Rightarrow> bool" where
  "unmodelled c = (c \<in> set ''+?()[]{}|'' \<or> c = CHR 0x5C)"

definition atomOf :: "char \<Rightarrow> atom" where
  "atomOf c = (if c = CHR ''.'' then AnyChar else Lit c)"

fun consItem :: "item \<Rightarrow> error + item list \<Rightarrow> error + item list" where
  "consItem i (Inl e) = Inl e"
| "consItem i (Inr r) = Inr (i # r)"

fun newRegExp :: "string \<Rightarrow> error + item list" where
  "newRegExp [] = Inr []"
| "newRegExp [c] =
     (if c = CHR ''*'' then Inl (SyntaxError ''Nothing to repeat'')
      else if unmodelled c then Inl (Error ''unmodelled'')
      else if c = CHR ''^'' then Inr [Bol]
      else if c = CHR ''$'' then Inr [Eol]
      else Inr [One (atomOf c)])"
| "newRegExp (c # d # cs) =
     (if c = CHR ''*'' then Inl (SyntaxError ''Nothing to repeat'')
      else if unmodelled c then Inl (Error ''unmodelled'')
      else if c = CHR ''^'' then consItem Bol (newRegExp (d # cs))
      else if c = CHR ''$'' then consItem Eol (newRegExp (d # cs))
      else if d = CHR ''*'' then consItem (Star (atomOf c)) (newRegExp cs)
      else consItem (One (atomOf c)) (newRegExp (d # cs)))"

definition matchAtom :: "atom \<Rightarrow> char \<Rightarrow> bool" where
  \<comment> \<open>with the \<open>i\<close> flag: characters are compared in canonical (upper) case\<close>
  "matchAtom a c =
     (case a of
        AnyChar \<Rightarrow> c \<noteq> CHR 0x0A \<and> c \<noteq> CHR 0x0D
      | Lit l \<Rightarrow> upperOf l = upperOf c)"

text \<open>
  \<open>matchFrom r atStart s\<close>: the items \<open>r\<close> match a prefix of \<open>s\<close>, where \<open>atStart\<close> says that
  \<open>s\<close> begins at index 0 of the input. Backtracking tries every split, so the order in
  which a greedy \<open>*\<close> tries them does not change the answer of \<open>test\<close>.
\<close>

fun matchFrom :: "item list \<Rightarrow> bool \<Rightarrow> string \<Rightarrow> bool" where
  "matchFrom [] atStart s = True"
| "matchFrom (Bol # r) atStart s = (atStart \<and> matchFrom r atStart s)"
| "matchFrom (Eol # r) atStart s = (s = [] \<and> matchFrom r atStart s)"
| "matchFrom (One a # r) atStart [] = False"
| "matchFrom (One a # r) atStart (c # cs) = (matchAtom a c \<and> matchFrom r False cs)"
| "matchFrom (Star a # r) atStart [] = matchFrom r atStart []"
| "matchFrom (Star a # r) atStart (c # cs) =
     (matchFrom r atStart (c # cs) \<or> (matchAtom a c \<and> matchFrom (Star a # r) False cs))"

fun searchFrom :: "item list \<Rightarrow> bool \<Rightarrow> string \<Rightarrow> bool" where
  "searchFrom r atStart [] = matchFrom r atStart []"
| "searchFrom r atStart (c # cs) = (matchFrom r atStart (c # cs) \<or> searchFrom r False cs)"

definition test :: "item list \<Rightarrow> string \<Rightarrow> bool" where
  \<comment> \<open>\<open>regex.test(s)\<close>: a match starting at some index of \<open>s\<close>\<close>
  "test r s = searchFrom r True s"

definition compileRegExp :: "env \<Rightarrow> string \<Rightarrow> error + (string \<Rightarrow> bool)" where
  \<comment> \<open>\<open>new RegExp(src, 'i')\<close>, as the exception thrown or the \<open>test\<close> method of the result\<close>
  "compileRegExp env src =
     (if list_ex unmodelled src then otherRegExp env src
      else case newRegExp src of
             Inl e \<Rightarrow> Inl e
           | Inr r \<Rightarrow> Inr (test r))"

definition replaceAll :: "char \<Rightarrow> string \<Rightarrow> string \<Rightarrow> string" where
  \<comment> \<open>\<open>s.replace(/c/g, by)\<close> for a single character \<open>c\<close>\<close>
  "replaceAll c by s = concat (map (\<lambda>x. if x = c then by else [x]) s)"

text \<open>
  The matcher of \<open>conditions.domainPatterns\<close> in \<open>shouldTriggerSaleAlert\<close> and
  \<open>shouldExecuteAutoPurchase\<close>: \<open>new RegExp(pattern.replace(/\*/g, '.*'), 'i').test(domain)\<close>.
  The constructor's exception is not caught there.
\<close>

definition conditionPatternTest :: "env \<Rightarrow> string \<Rightarrow> string \<Rightarrow> error + bool" where
  "conditionPatternTest env pattern domain =
     (case compileRegExp env (replaceAll (CHR ''*'') ''.*'' pattern) of
        Inl e \<Rightarrow> Inl e
      | Inr regex \<Rightarrow> Inr (regex domain))"

fun somePattern :: "env \<Rightarrow> string list \<Rightarrow> string \<Rightarrow> error + bool" where
  \<comment> \<open>\<open>patterns.some(pattern => ...)\<close>: stops at the first match\<close>
  "somePattern env [] domain = Inr False"
| "somePattern env (p # ps) domain =
     (case conditionPatternTest env p domain of
        Inl e \<Rightarrow> Inl e
      | Inr True \<Rightarrow> Inr True
      | Inr False \<Rightarrow> somePattern env ps domain)"

text \<open>
  The matcher of an alert's \<open>domainPattern\<close> in \<open>getAlertsByPattern\<close>: the pattern is read
  as an SQL LIKE pattern (\<open>%\<close> becomes \<open>.*\<close>, then \<open>_\<close> becomes \<open>.\<close>), anchored with \<open>^\<close> and
  \<open>$\<close>; a pattern the constructor rejects does not match.
\<close>

definition likePatternTest :: "env \<Rightarrow> string \<Rightarrow> string \<Rightarrow> bool" where
  "likePatternTest env domainPattern domain =
     (case compileRegExp env
             (''^'' @ replaceAll (CHR ''_'') ''.'' (replaceAll (CHR ''%'') ''.*'' domainPattern) @ ''$'') of
        Inl e \<Rightarrow> False
      | Inr regex \<Rightarrow> regex domain)"


section \<open>Auto-actions service (AutoActionsService)\<close>

definition getUserSigner :: "user option \<Rightarrow> error + signer" where
  \<comment> \<open>the method's whole body is the \<open>throw\<close>; no path returns a signer\<close>
  "getUserSigner u = Inl (Error ''Wallet integration not implemented - requires user signature'')"

text \<open>
  \<open>getAutoActions\<close> selects from \<open>auto_actions aa JOIN users u ON aa.userId = u.id\<close> and
  builds its \<open>WHERE\<close> clause from column names without a table prefix: \<open>type\<close>, \<open>conditions\<close>
  when a domain is given, and \<open>isActive\<close> when \<open>criteria.isActive\<close> is defined, which it is
  in every call (\<open>isActive: true\<close>). A name that is a column of both tables is ambiguous:
  SQLite rejects the statement when it prepares it, whatever the tables hold, and the
  \<open>catch\<close> block returns the empty list. The columns are those of the schema
  (database/init.js, file unnamed/part_003).
\<close>

definition usersColumns :: "string list" where
  "usersColumns = [''id'', ''telegramId'', ''twitterId'', ''email'', ''username'', ''passwordHash'',
     ''subscriptionTier'', ''subscriptionExpiry'', ''isActive'', ''monthlySpendLimit'', ''walletAddress'',
     ''domaAccountId'', ''preferences'', ''createdAt'', ''updatedAt'']"

definition autoActionsColumns :: "string list" where
  "autoActionsColumns = [''id'', ''userId'', ''type'', ''conditions'', ''maxAmount'', ''isActive'',
     ''executionCount'', ''lastExecuted'', ''createdAt'', ''updatedAt'']"

definition ambiguousColumn :: "string \<Rightarrow> bool" where
  "ambiguousColumn c = (c \<in> set autoActionsColumns \<and> c \<in> set usersColumns)"

definition whereColumns :: "string \<Rightarrow> string option \<Rightarrow> string list" where
  \<comment> \<open>the names in the \<open>WHERE\<close> clause for \<open>{ type, domain, isActive: true }\<close>; an empty
     \<open>type\<close> or \<open>domain\<close> is falsy and adds no criterion\<close>
  "whereColumns type domain =
     (if type = [] then [] else [''type''])
     @ (case domain of None \<Rightarrow> [] | Some d \<Rightarrow> if d = [] then [] else [''conditions''])
     @ [''isActive'']"

definition getAutoActions :: "env \<Rightarrow> autoState \<Rightarrow> string \<Rightarrow> string option \<Rightarrow> autoAction list" where
  \<comment> \<open>\<open>isActive\<close> is among the names in every call, so the first branch is the one taken.
     The other branch is the query on a schema where the names are unique: the rows the
     criteria select, joined with their owners.\<close>
  "getAutoActions env s type domain =
     (if list_ex ambiguousColumn (whereColumns type domain) then []
      else case dbFails env SelectAutoActions of
             Some e \<Rightarrow> []
           | None \<Rightarrow>
               filter (\<lambda>a. (type = [] \<or> aa_type a = type)
                          \<and> (case domain of None \<Rightarrow> True | Some d \<Rightarrow> if d = [] then True else sqlDomainLike env d a)
                          \<and> aa_isActive a
                          \<and> find (\<lambda>u. u_id u = aa_userId a) (users env) \<noteq> None)
                      (auto_actions s))"

text \<open>
  \<open>auto_action_logs\<close> declares \<open>actionId\<close> and \<open>userId\<close> as foreign keys into
  \<open>auto_actions\<close> and \<open>users\<close>, and the connection is opened with \<open>PRAGMA foreign_keys = ON\<close>:
  the insert is rejected when the rule or the user has no row. \<open>logAutoAction\<close> catches
  and logs the rejection.
\<close>

definition logAutoAction :: "env \<Rightarrow> autoState \<Rightarrow> autoActionLog \<Rightarrow> autoState" where
  "logAutoAction env s entry =
     (case dbFails env InsertAutoActionLog of
        Some e \<Rightarrow> s
      | None \<Rightarrow>
          if l_actionId entry \<in> set (map aa_id (auto_actions s))
             \<and> l_userId entry \<in> set (map u_id (users env))
          then s\<lparr>auto_action_logs := auto_action_logs s @ [entry]\<rparr>
          else s)"

definition updateActionExecutionCount :: "env \<Rightarrow> autoState \<Rightarrow> nat \<Rightarrow> autoState" where
  "updateActionExecutionCount env s actionId =
     (case dbFails env UpdateAutoActionCount of
        Some e \<Rightarrow> s
      | None \<Rightarrow>
          s\<lparr>auto_actions :=
              map (\<lambda>a. if aa_id a = actionId
                        then a\<lparr>executionCount := executionCount a + 1, lastExecuted := Some (dateNow env)\<rparr>
                        else a)
                  (auto_actions s)\<rparr>)"

text \<open>
  \<open>urgencyLevels[name] || 0\<close> on the object literal \<open>{ low: 0, medium: 1, high: 2, critical: 3 }\<close>.
  A name that is a key of \<open>Object.prototype\<close> finds the inherited member, which is truthy,
  so the \<open>|| 0\<close> does not apply. In \<open>eventLevel < minLevel\<close> such a member is converted to a
  primitive first: a native function to its source text as Node prints it, the prototype
  object (\<open>__proto__\<close>) to \<open>[object Object]\<close>. Two texts are compared as strings; a text
  against a number is \<open>NaN\<close> against a number, which is false.
\<close>

datatype level = Level nat | Inherited string

definition objectPrototypeKeys :: "string list" where
  "objectPrototypeKeys = [''constructor'', ''__defineGetter__'', ''__defineSetter__'', ''hasOwnProperty'',
     ''__lookupGetter__'', ''__lookupSetter__'', ''isPrototypeOf'', ''propertyIsEnumerable'', ''toString'',
     ''valueOf'', ''__proto__'', ''toLocaleString'']"

definition urgencyLevel :: "string option \<Rightarrow> level" where
  "urgencyLevel u =
     (case u of
        None \<Rightarrow> Level 0
      | Some name \<Rightarrow>
          if name = ''low'' then Level 0 else if name = ''medium'' then Level 1
          else if name = ''high'' then Level 2 else if name = ''critical'' then Level 3
          else if name \<in> set objectPrototypeKeys then Inherited name
          else Level 0)"

definition primitiveText :: "string \<Rightarrow> string" where
  "primitiveText key =
     (if key = ''__proto__'' then ''[object Object]''
      else ''function '' @ (if key = ''constructor'' then ''Object'' else key) @ ''() { [native code] }'')"

fun stringLess :: "string \<Rightarrow> string \<Rightarrow> bool" where
  \<comment> \<open>\<open><\<close> on two strings: by code units, a proper prefix first\<close>
  "stringLess [] [] = False"
| "stringLess [] (d # ds) = True"
| "stringLess (c # cs) [] = False"
| "stringLess (c # cs) (d # ds) =
     ((of_char c :: nat) < of_char d \<or> (c = d \<and> stringLess cs ds))"

definition levelLess :: "level \<Rightarrow> level \<Rightarrow> bool" where
  "levelLess a b =
     (case (a, b) of
        (Level m, Level n) \<Rightarrow> m < n
      | (Inherited j, Inherited k) \<Rightarrow> stringLess (primitiveText j) (primitiveText k)
      | _ \<Rightarrow> False)"

definition shouldExecuteAutoRenewal :: "autoConditions \<Rightarrow> event \<Rightarrow> bool" where
  "shouldExecuteAutoRenewal conditions ev =
     (if (case daysBeforeExpiry conditions of None \<Rightarrow> False | Some d \<Rightarrow> d \<noteq> 0 \<and> daysUntilExpiry ev > d)
      then False
      else if (case ac_minUrgency conditions of None \<Rightarrow> False
               | Some m \<Rightarrow> m \<noteq> [] \<and> levelLess (urgencyLevel (urgency ev)) (urgencyLevel (Some m)))
      then False
      else True)"

definition shouldExecuteAutoPurchase :: "env \<Rightarrow> autoAction \<Rightarrow> event \<Rightarrow> error + bool" where
  "shouldExecuteAutoPurchase env action ev =
     (let conditions = aa_conditions action; priceNum = price ev in
      if priceNum > maxAmount action then Inr False
      else if (case ac_maxPrice conditions of None \<Rightarrow> False | Some m \<Rightarrow> m \<noteq> 0 \<and> priceNum > m) then Inr False
      else if (case ac_minPrice conditions of None \<Rightarrow> False | Some m \<Rightarrow> m \<noteq> 0 \<and> priceNum < m) then Inr False
      else case (case ac_domainPatterns conditions of None \<Rightarrow> Inr True
                 | Some ps \<Rightarrow> somePattern env ps (e_domain ev)) of
             Inl e \<Rightarrow> Inl e
           | Inr False \<Rightarrow> Inr False
           | Inr True \<Rightarrow>
               if (case targetDomains conditions of None \<Rightarrow> False | Some ds \<Rightarrow> e_domain ev \<notin> set ds)
               then Inr False
               else if (case excludeSellers conditions of None \<Rightarrow> False
                        | Some xs \<Rightarrow> (case seller ev of None \<Rightarrow> False | Some sl \<Rightarrow> toLowerCase sl \<in> set xs))
               then Inr False
               else Inr True)"

text \<open>
  \<open>executeAutoRenewal\<close> and \<open>executeAutoPurchase\<close> are one \<open>try\<close>/\<open>catch\<close>/\<open>finally\<close> each. A
  block is modelled by a function that returns the state it leaves and the exception that
  leaves it, if any.

  The \<open>try\<close> block declares \<open>const actionKey\<close>, tests \<open>activeActions.has(actionKey)\<close> and
  returns when the key is present; otherwise it sets the key and goes on. There is no
  \<open>await\<close> between the test and the \<open>set\<close>.
\<close>

definition renewalKey :: "autoAction \<Rightarrow> event \<Rightarrow> string" where
  "renewalKey action ev = ''renewal_'' @ toString (aa_id action) @ ''_'' @ e_domain ev"

definition purchaseKey :: "autoAction \<Rightarrow> event \<Rightarrow> string" where
  "purchaseKey action ev = ''purchase_'' @ toString (aa_id action) @ ''_'' @ e_domain ev"

definition installLock :: "env \<Rightarrow> autoState \<Rightarrow> string \<Rightarrow> autoAction \<Rightarrow> event \<Rightarrow> autoState" where
  "installLock env s actionKey action ev =
     s\<lparr>activeActions := (activeActions s)(actionKey \<mapsto>
          \<lparr>startTime = dateNow env, ae_action = action, ae_event = ev\<rparr>)\<rparr>"

definition executeAutoRenewal_try :: "env \<Rightarrow> autoState \<Rightarrow> autoAction \<Rightarrow> event \<Rightarrow> autoState \<times> error option" where
  "executeAutoRenewal_try env s action ev =
     (let actionKey = renewalKey action ev in
      if activeActions s actionKey \<noteq> None then (s, None)
      else
        let s1 = installLock env s actionKey action ev in
        if \<not> checkSpendingLimits env s1 (aa_userId action) (maxAmount action)
        then (s1, Some (Error ''Monthly spending limit exceeded''))
        else case getUserById env (aa_userId action) of
               Inl e \<Rightarrow> (s1, Some e)
             | Inr u \<Rightarrow>
                (case getUserSigner u of
                   Inl e \<Rightarrow> (s1, Some e)
                 | Inr sg \<Rightarrow>
                    (let duration = (case renewalDuration (aa_conditions action) of
                                       None \<Rightarrow> 365 | Some d \<Rightarrow> if d = 0 then 365 else d) in
                     case renewDomain env (e_domain ev) (duration * 24 * 60 * 60) sg of
                       Inl e \<Rightarrow> (s1, Some e)
                     | Inr result \<Rightarrow>
                        (let s2 = trackSpending env s1 (aa_userId action) (maxAmount action);
                             s3 = logAutoAction env s2
                                    \<lparr>l_actionId = aa_id action, l_userId = aa_userId action,
                                      l_domain = e_domain ev, l_amount = maxAmount action,
                                      l_transactionHash = Some (r_transactionHash result),
                                      l_status = ''success'', l_errorMessage = None\<rparr>;
                             s4 = updateActionExecutionCount env s3 (aa_id action);
                             s5 = s4\<lparr>autoEmitted := autoEmitted s4 @
                                    [AutoActionExecuted ''renewal'' (aa_userId action) (e_domain ev)
                                       (r_transactionHash result) None]\<rparr>
                         in (s5, None)))))"

definition executeAutoPurchase_try :: "env \<Rightarrow> autoState \<Rightarrow> autoAction \<Rightarrow> event \<Rightarrow> autoState \<times> error option" where
  "executeAutoPurchase_try env s action ev =
     (let actionKey = purchaseKey action ev in
      if activeActions s actionKey \<noteq> None then (s, None)
      else
        let s1 = installLock env s actionKey action ev;
            purchaseAmount = price ev in
        if \<not> checkSpendingLimits env s1 (aa_userId action) purchaseAmount
        then (s1, Some (Error ''Monthly spending limit exceeded''))
        else case getUserById env (aa_userId action) of
               Inl e \<Rightarrow> (s1, Some e)
             | Inr u \<Rightarrow>
                (case getUserSigner u of
                   Inl e \<Rightarrow> (s1, Some e)
                 | Inr sg \<Rightarrow>
                    (case buyDomain env (e_domain ev) sg of
                       Inl e \<Rightarrow> (s1, Some e)
                     | Inr result \<Rightarrow>
                        (let s2 = trackSpending env s1 (aa_userId action) purchaseAmount;
                             s3 = logAutoAction env s2
                                    \<lparr>l_actionId = aa_id action, l_userId = aa_userId action,
                                      l_domain = e_domain ev, l_amount = purchaseAmount,
                                      l_transactionHash = Some (r_transactionHash result),
                                      l_status = ''success'', l_errorMessage = None\<rparr>;
                             s4 = updateActionExecutionCount env s3 (aa_id action);
                             s5 = s4\<lparr>autoEmitted := autoEmitted s4 @
                                    [AutoActionExecuted ''purchase'' (aa_userId action) (e_domain ev)
                                       (r_transactionHash result) (Some purchaseAmount)]\<rparr>
                         in (s5, None)))))"

text \<open>The \<open>catch\<close> block: a failed log entry with amount 0, then \<open>autoActionFailed\<close>.\<close>

definition executeAuto_catch :: "string \<Rightarrow> env \<Rightarrow> autoState \<Rightarrow> autoAction \<Rightarrow> event \<Rightarrow> error \<Rightarrow> autoState" where
  "executeAuto_catch kind env s action ev err =
     (let s1 = logAutoAction env s
                 \<lparr>l_actionId = aa_id action, l_userId = aa_userId action,
                   l_domain = e_domain ev, l_amount = 0, l_transactionHash = None,
                   l_status = ''failed'', l_errorMessage = Some (message err)\<rparr>
      in s1\<lparr>autoEmitted := autoEmitted s1 @
              [AutoActionFailed kind (aa_userId action) (e_domain ev) (message err)]\<rparr>)"

text \<open>
  The \<open>finally\<close> block is \<open>this.activeActions.delete(actionKey)\<close>. \<open>actionKey\<close> is a
  \<open>const\<close> of the \<open>try\<close> block, so it is not in scope here, and the module declares no
  other binding of that name: evaluating the argument throws a ReferenceError before
  \<open>delete\<close> is called. The map is left as it is, and the exception replaces the completion
  of the \<open>try\<close> or \<open>catch\<close> block, the early \<open>return\<close> included.
\<close>

definition executeAuto_finally :: "autoState \<Rightarrow> autoState \<times> error option" where
  "executeAuto_finally s = (s, Some (ReferenceError ''actionKey is not defined''))"

definition executeAutoRenewal :: "env \<Rightarrow> autoState \<Rightarrow> autoAction \<Rightarrow> event \<Rightarrow> autoState \<times> error option" where
  "executeAutoRenewal env s action ev =
     (case executeAutoRenewal_try env s action ev of
        (s1, None) \<Rightarrow> executeAuto_finally s1
      | (s1, Some err) \<Rightarrow> executeAuto_finally (executeAuto_catch ''renewal'' env s1 action ev err))"

definition executeAutoPurchase :: "env \<Rightarrow> autoState \<Rightarrow> autoAction \<Rightarrow> event \<Rightarrow> autoState \<times> error option" where
  "executeAutoPurchase env s action ev =
     (case executeAutoPurchase_try env s action ev of
        (s1, None) \<Rightarrow> executeAuto_finally s1
      | (s1, Some err) \<Rightarrow> executeAuto_finally (executeAuto_catch ''purchase'' env s1 action ev err))"


text \<open>
  \<open>catch (error) { logger.error(...) }\<close>: the handler only logs, so the block completes
  normally with the state the \<open>try\<close> block left.
\<close>

definition catchAll :: "'s \<times> error option \<Rightarrow> 's \<times> error option" where
  "catchAll r = (fst r, None)"

text \<open>
  The body of the per-rule \<open>try\<close> in \<open>checkAutoRenewal\<close>, \<open>checkAutoPurchase\<close> and
  \<open>checkAutoBid\<close>. The class defines neither \<open>shouldExecuteAutoBid\<close> nor \<open>executeAutoBid\<close>,
  so the call in \<open>checkAutoBid\<close> is a TypeError.
\<close>

definition renewalStep_try :: "env \<Rightarrow> event \<Rightarrow> autoState \<Rightarrow> autoAction \<Rightarrow> autoState \<times> error option" where
  "renewalStep_try env ev s action =
     (case getUserById env (aa_userId action) of
        Inl e \<Rightarrow> (s, Some e)
      | Inr None \<Rightarrow> (s, None)
      | Inr (Some u) \<Rightarrow>
          if subscriptionTier u \<noteq> ''premium'' then (s, None)
          else if map_option toLowerCase (walletAddress u) \<noteq> map_option toLowerCase (owner ev) then (s, None)
          else if shouldExecuteAutoRenewal (aa_conditions action) ev then executeAutoRenewal env s action ev
          else (s, None))"

definition purchaseStep_try :: "env \<Rightarrow> event \<Rightarrow> autoState \<Rightarrow> autoAction \<Rightarrow> autoState \<times> error option" where
  "purchaseStep_try env ev s action =
     (case getUserById env (aa_userId action) of
        Inl e \<Rightarrow> (s, Some e)
      | Inr None \<Rightarrow> (s, None)
      | Inr (Some u) \<Rightarrow>
          if subscriptionTier u \<noteq> ''premium'' then (s, None)
          else case shouldExecuteAutoPurchase env action ev of
                 Inl e \<Rightarrow> (s, Some e)
               | Inr True \<Rightarrow> executeAutoPurchase env s action ev
               | Inr False \<Rightarrow> (s, None))"

definition bidStep_try :: "env \<Rightarrow> event \<Rightarrow> autoState \<Rightarrow> autoAction \<Rightarrow> autoState \<times> error option" where
  "bidStep_try env ev s action =
     (case getUserById env (aa_userId action) of
        Inl e \<Rightarrow> (s, Some e)
      | Inr None \<Rightarrow> (s, None)
      | Inr (Some u) \<Rightarrow>
          if subscriptionTier u \<noteq> ''premium'' then (s, None)
          else (s, Some (TypeError ''this.shouldExecuteAutoBid is not a function'')))"

text \<open>\<open>for (const action of autoActions) { try { ... } catch (error) { logger.error(...) } }\<close>\<close>

fun forEachCaught :: "('s \<Rightarrow> 'a \<Rightarrow> 's \<times> error option) \<Rightarrow> 's \<Rightarrow> 'a list \<Rightarrow> 's" where
  "forEachCaught step s [] = s"
| "forEachCaught step s (x # xs) = forEachCaught step (fst (catchAll (step s x))) xs"

definition checkAutoRenewal_try :: "env \<Rightarrow> autoState \<Rightarrow> event \<Rightarrow> autoState \<times> error option" where
  "checkAutoRenewal_try env s ev =
     (forEachCaught (renewalStep_try env ev) s (getAutoActions env s ''renew'' (Some (e_domain ev))), None)"

definition checkAutoRenewal :: "env \<Rightarrow> autoState \<Rightarrow> event \<Rightarrow> autoState \<times> error option" where
  "checkAutoRenewal env s ev = catchAll (checkAutoRenewal_try env s ev)"

definition checkAutoPurchase_try :: "env \<Rightarrow> autoState \<Rightarrow> event \<Rightarrow> autoState \<times> error option" where
  "checkAutoPurchase_try env s ev =
     (if e_type ev \<noteq> ''listing'' then (s, None)
      else (forEachCaught (purchaseStep_try env ev) s (getAutoActions env s ''buy'' None), None))"

definition checkAutoPurchase :: "env \<Rightarrow> autoState \<Rightarrow> event \<Rightarrow> autoState \<times> error option" where
  "checkAutoPurchase env s ev = catchAll (checkAutoPurchase_try env s ev)"

definition checkAutoBid_try :: "env \<Rightarrow> autoState \<Rightarrow> event \<Rightarrow> autoState \<times> error option" where
  "checkAutoBid_try env s ev =
     (forEachCaught (bidStep_try env ev) s (getAutoActions env s ''bid'' None), None)"

definition checkAutoBid :: "env \<Rightarrow> autoState \<Rightarrow> event \<Rightarrow> autoState \<times> error option" where
  "checkAutoBid env s ev = catchAll (checkAutoBid_try env s ev)"


section \<open>Alert store (src/database/models/alert.js)\<close>

text \<open>
  Both lookups end with \<open>rows.map(alert => ({ ...alert, conditions: JSON.parse(alert.conditions || '{}') }))\<close>
  inside their \<open>try\<close> block, whose \<open>catch\<close> logs and rethrows: the first row whose text
  does not parse makes the whole lookup reject with the SyntaxError. Its message, which
  names the offending token, is only logged; the model has one message for all texts.
\<close>

definition parseConditions :: "alertRow \<Rightarrow> error + alert" where
  "parseConditions row =
     (case a_conditions row of
        None \<Rightarrow> Inl (SyntaxError ''Unexpected token in JSON'')
      | Some c \<Rightarrow>
          Inr \<lparr>a_id = a_id row, a_userId = a_userId row, a_type = a_type row, a_domain = a_domain row,
               a_domainPattern = a_domainPattern row, a_conditions = c, platform = platform row,
               a_isActive = a_isActive row, triggerCount = triggerCount row,
               lastTriggered = lastTriggered row\<rparr>)"

fun parseRows :: "alertRow list \<Rightarrow> error + alert list" where
  "parseRows [] = Inr []"
| "parseRows (row # rows) =
     (case parseConditions row of
        Inl e \<Rightarrow> Inl e
      | Inr al \<Rightarrow>
          (case parseRows rows of
             Inl e \<Rightarrow> Inl e
           | Inr als \<Rightarrow> Inr (al # als)))"

definition getAlertsByDomain :: "env \<Rightarrow> alertState \<Rightarrow> string \<Rightarrow> string \<Rightarrow> error + alert list" where
  \<comment> \<open>\<open>WHERE isActive = 1 AND (domain = ? OR domainPattern = ?) AND type = ?\<close>\<close>
  "getAlertsByDomain env s domain type =
     (case dbFails env SelectAlerts of
        Some e \<Rightarrow> Inl e
      | None \<Rightarrow>
          parseRows (filter (\<lambda>a. a_isActive a
                          \<and> (a_domain a = Some domain \<or> a_domainPattern a = Some domain)
                          \<and> (type = [] \<or> a_type a = type))
                      (alerts s)))"

definition getAlertsByPattern :: "env \<Rightarrow> alertState \<Rightarrow> string \<Rightarrow> string \<Rightarrow> error + alert list" where
  \<comment> \<open>\<open>WHERE isActive = 1 AND domainPattern IS NOT NULL AND type = ?\<close>, then the filter
     on the compiled pattern\<close>
  "getAlertsByPattern env s domain type =
     (case dbFails env SelectAlerts of
        Some e \<Rightarrow> Inl e
      | None \<Rightarrow>
          parseRows (filter (\<lambda>a. case a_domainPattern a of
                              None \<Rightarrow> False
                            | Some p \<Rightarrow> p \<noteq> [] \<and> likePatternTest env p domain)
                 (filter (\<lambda>a. a_isActive a \<and> a_domainPattern a \<noteq> None \<and> (type = [] \<or> a_type a = type))
                    (alerts s))))"

definition incrementTriggerCount :: "env \<Rightarrow> alertState \<Rightarrow> nat \<Rightarrow> error + alertState" where
  "incrementTriggerCount env s aid =
     (case dbFails env UpdateAlertTrigger of
        Some e \<Rightarrow> Inl e
      | None \<Rightarrow>
          Inr (s\<lparr>alerts :=
                   map (\<lambda>a. if a_id a = aid
                             then a\<lparr>triggerCount := triggerCount a + 1, lastTriggered := Some (dateNow env)\<rparr>
                             else a)
                       (alerts s)\<rparr>))"

text \<open>
  \<open>logAlert\<close> inserts into \<open>alert_logs\<close> and rethrows a rejection. \<open>dbFails\<close> stands for
  every rejection of the insert, that of a foreign key (no row for the alert or the user)
  included.
\<close>

definition logAlertToDb :: "env \<Rightarrow> alertState \<Rightarrow> alertLog \<Rightarrow> error + alertState" where
  "logAlertToDb env s entry =
     (case dbFails env (InsertAlertLog (al_status entry)) of
        Some e \<Rightarrow> Inl e
      | None \<Rightarrow> Inr (s\<lparr>alert_logs := alert_logs s @ [entry]\<rparr>))"

section \<open>Alert service (AlertService)\<close>

definition shouldTriggerExpiryAlert :: "alert \<Rightarrow> event \<Rightarrow> bool" where
  "shouldTriggerExpiryAlert al ev =
     (let conditions = a_conditions al in
      if (case daysThreshold conditions of None \<Rightarrow> False | Some d \<Rightarrow> d \<noteq> 0 \<and> daysUntilExpiry ev > d)
      then False
      else if (case minUrgency conditions of None \<Rightarrow> False
               | Some m \<Rightarrow> m \<noteq> [] \<and> levelLess (urgencyLevel (urgency ev)) (urgencyLevel (Some m)))
      then False
      else True)"

definition shouldTriggerSaleAlert :: "env \<Rightarrow> alert \<Rightarrow> event \<Rightarrow> error + bool" where
  "shouldTriggerSaleAlert env al ev =
     (let conditions = a_conditions al in
      if (case maxPrice conditions of None \<Rightarrow> False | Some m \<Rightarrow> m \<noteq> 0 \<and> price ev > m) then Inr False
      else if (case minPrice conditions of None \<Rightarrow> False | Some m \<Rightarrow> m \<noteq> 0 \<and> price ev < m) then Inr False
      else if (case saleTypes conditions of None \<Rightarrow> False | Some ts \<Rightarrow> e_type ev \<notin> set ts) then Inr False
      else case domainPatterns conditions of
             None \<Rightarrow> Inr True
           | Some ps \<Rightarrow> somePattern env ps (e_domain ev))"

definition checkAlertFrequency :: "user \<Rightarrow> alertData \<Rightarrow> bool" where
  "checkAlertFrequency u ad =
     (if subscriptionTier u = ''free''
      then (if ad_urgency ad \<noteq> Some ''critical'' then False else True)
      else True)"

definition logEntry :: "alertData \<Rightarrow> string \<Rightarrow> alertLog" where
  "logEntry ad status =
     \<lparr>al_alertId = alertId ad, al_userId = ad_userId ad, al_eventType = ad_type ad,
      al_eventData = ad_data ad, al_status = status, al_platform = ad_platform ad\<rparr>"

definition sendAlert_try :: "env \<Rightarrow> alertState \<Rightarrow> alertData \<Rightarrow> alertState \<times> error option" where
  "sendAlert_try env s ad =
     (case getUserById env (ad_userId ad) of
        Inl e \<Rightarrow> (s, Some e)
      | Inr None \<Rightarrow> (s, None)
      | Inr (Some u) \<Rightarrow>
          if \<not> u_isActive u then (s, None)
          else if \<not> checkAlertFrequency u ad then (s, None)
          else (let em = \<lparr>em_data = ad, em_user = u\<rparr> in
                case listenerThrows env em of
                  Some e \<Rightarrow> (s, Some e)
                | None \<Rightarrow>
                    (let s1 = s\<lparr>emitted := emitted s @ [em]\<rparr> in
                     case logAlertToDb env s1 (logEntry ad ''sent'') of
                       Inl e \<Rightarrow> (s1, Some e)
                     | Inr s2 \<Rightarrow> (s2, None))))"

definition sendAlert_catch :: "env \<Rightarrow> alertState \<Rightarrow> alertData \<Rightarrow> alertState" where
  \<comment> \<open>logs the failed alert; a failure of that insert is caught and logged as well\<close>
  "sendAlert_catch env s ad =
     (case logAlertToDb env s (logEntry ad ''failed'') of
        Inl e \<Rightarrow> s
      | Inr s1 \<Rightarrow> s1)"

definition sendAlert :: "env \<Rightarrow> alertState \<Rightarrow> alertData \<Rightarrow> alertState \<times> error option" where
  "sendAlert env s ad =
     (case sendAlert_try env s ad of
        (s1, None) \<Rightarrow> (s1, None)
      | (s1, Some err) \<Rightarrow> (sendAlert_catch env s1 ad, None))"

definition expiryAlertData :: "alert \<Rightarrow> event \<Rightarrow> alertData" where
  "expiryAlertData al ev =
     \<lparr>ad_type = ''expiry'', alertId = a_id al, ad_userId = a_userId al, ad_domain = e_domain ev,
      ad_urgency = urgency ev, ad_platform = platform al, ad_data = ev\<rparr>"


text \<open>\<open>await this.sendAlert({...}); await incrementTriggerCount(alert.id);\<close>\<close>

definition sendAndCount :: "env \<Rightarrow> alertState \<Rightarrow> alertData \<Rightarrow> nat \<Rightarrow> alertState \<times> error option" where
  "sendAndCount env s ad aid =
     (case sendAlert env s ad of
        (s1, Some e) \<Rightarrow> (s1, Some e)
      | (s1, None) \<Rightarrow>
          (case incrementTriggerCount env s1 aid of
             Inl e \<Rightarrow> (s1, Some e)
           | Inr s2 \<Rightarrow> (s2, None)))"

definition expiryStep_try :: "env \<Rightarrow> event \<Rightarrow> alertState \<Rightarrow> alert \<Rightarrow> alertState \<times> error option" where
  "expiryStep_try env ev s al =
     (if shouldTriggerExpiryAlert al ev
      then sendAndCount env s (expiryAlertData al ev) (a_id al)
      else (s, None))"


definition setAdd :: "string \<Rightarrow> string list \<Rightarrow> string list" where
  \<comment> \<open>\<open>Set.prototype.add\<close>\<close>
  "setAdd x xs = (if x \<in> set xs then xs else xs @ [x])"

definition cleanOld :: "string list \<Rightarrow> string list" where
  \<comment> \<open>above 1000 entries, \<open>entries.slice(0, -900)\<close> are deleted: the last 900 stay\<close>
  "cleanOld xs = (if length xs > 1000 then drop (length xs - 900) xs else xs)"

definition processExpiryEvent_try :: "env \<Rightarrow> alertState \<Rightarrow> event \<Rightarrow> alertState \<times> error option" where
  "processExpiryEvent_try env s ev =
     (case blockData ev of
        None \<Rightarrow> (s, Some (TypeError ''Cannot read properties of undefined''))
      | Some bd \<Rightarrow>
          (let eventId = transactionHash bd @ ''-expiry'' in
           if eventId \<in> set (processedEvents s) then (s, None)
           else case getAlertsByDomain env s (e_domain ev) ''expiry'' of
                  Inl e \<Rightarrow> (s, Some e)
                | Inr directAlerts \<Rightarrow>
                   (case getAlertsByPattern env s (e_domain ev) ''expiry'' of
                      Inl e \<Rightarrow> (s, Some e)
                    | Inr patternAlerts \<Rightarrow>
                       (let s1 = forEachCaught (expiryStep_try env ev) s (directAlerts @ patternAlerts);
                            s2 = s1\<lparr>processedEvents := setAdd eventId (processedEvents s1)\<rparr>
                        in (s2\<lparr>processedEvents := cleanOld (processedEvents s2)\<rparr>, None)))))"

definition processExpiryEvent :: "env \<Rightarrow> alertState \<Rightarrow> event \<Rightarrow> alertState \<times> error option" where
  "processExpiryEvent env s ev = catchAll (processExpiryEvent_try env s ev)"



section \<open>Scenarios\<close>

text \<open>
  Concrete collaborators, states, rules and events, used to run the model: a premium
  owner (id 7) with monthly cap 200, a database and a domain service that answer, a ledger with
  150 committed for the current month, the buy rule (id 3) and the listing events of the
  specification's scenarios. The numbers the scenarios add are whole numbers far below
  \<open>2^53\<close>, whose sum the engine computes exactly, so \<open>plus\<close> is the exact sum here; no
  pattern of the scenarios holds a character outside the modelled fragment, so
  \<open>otherRegExp\<close> is not consulted.
\<close>

definition premiumUser :: user where
  "premiumUser = \<lparr>u_id = 7, subscriptionTier = ''premium'', u_isActive = True,
     monthlySpendLimit = Some 200, walletAddress = Some ''0xabc''\<rparr>"

definition okReceipt :: receipt where
  "okReceipt = \<lparr>r_transactionHash = ''0x2222'', gasUsed = ''21000''\<rparr>"

definition env0 :: env where
  "env0 = \<lparr>users = [premiumUser], dbFails = (\<lambda>q. None), dateNow = 1000,
     currentMonth = ''2024-05'', renewDomain = (\<lambda>d n sg. Inr okReceipt),
     buyDomain = (\<lambda>d sg. Inr okReceipt), sqlDomainLike = (\<lambda>d a. True),
     listenerThrows = (\<lambda>em. None), plus = (\<lambda>x y. x + y),
     otherRegExp = (\<lambda>src. Inl (SyntaxError ''Invalid regular expression''))\<rparr>"

definition envDbDown :: env where
  "envDbDown = env0\<lparr>dbFails := (\<lambda>q. Some (Error ''SQLITE_BUSY''))\<rparr>"

definition emptyAuto :: autoState where
  "emptyAuto = \<lparr>activeActions = Map.empty, monthlySpending = Map.empty,
     auto_actions = [], auto_action_logs = [], autoEmitted = []\<rparr>"

definition ledger150 :: autoState where
  "ledger150 = emptyAuto\<lparr>monthlySpending := [spendingKey 7 ''2024-05'' \<mapsto> 150]\<rparr>"

definition buyRule :: autoAction where
  "buyRule = \<lparr>aa_id = 3, aa_userId = 7, aa_type = ''buy'',
     aa_conditions = \<lparr>daysBeforeExpiry = None, ac_minUrgency = None, renewalDuration = None,
        ac_maxPrice = Some 50, ac_minPrice = None, ac_domainPatterns = Some [''*.ape''],
        targetDomains = None, excludeSellers = None\<rparr>,
     maxAmount = 50, aa_isActive = True, executionCount = 0, lastExecuted = None\<rparr>"

definition listing :: "string \<Rightarrow> rat \<Rightarrow> event" where
  "listing d p = \<lparr>e_type = ''listing'', e_domain = d, daysUntilExpiry = 0, urgency = None,
     price = p, seller = Some ''0xdef'', owner = None,
     blockData = Some \<lparr>transactionHash = ''0xaaa'', blockNumber = 7\<rparr>\<rparr>"

definition headroom :: autoState where
  "headroom = emptyAuto\<lparr>auto_actions := [buyRule]\<rparr>"

definition lockHeld :: autoState where
  "lockHeld = headroom\<lparr>activeActions :=
      [purchaseKey buyRule (listing ''nft.ape'' 45) \<mapsto>
         \<lparr>startTime = 900, ae_action = buyRule, ae_event = listing ''nft.ape'' 45\<rparr>]\<rparr>"

text \<open>
  For the alert service: a free-tier and a basic-tier owner (ids 8 and 9), expiry events,
  an expiry rule bound to a domain and one bound to a pattern, and a store holding given
  rules with nothing processed, logged or emitted yet. \<open>stored\<close> is the row of a rule whose
  \<open>conditions\<close> text is the JSON of its conditions; \<open>unparseable\<close> is the same row after
  \<open>updateAlert\<close> was given a string that is not JSON as \<open>conditions\<close>.
\<close>

definition freeUser :: user where
  "freeUser = \<lparr>u_id = 8, subscriptionTier = ''free'', u_isActive = True,
     monthlySpendLimit = None, walletAddress = None\<rparr>"

definition basicUser :: user where
  "basicUser = \<lparr>u_id = 9, subscriptionTier = ''basic'', u_isActive = True,
     monthlySpendLimit = None, walletAddress = None\<rparr>"

definition envAlerts :: env where
  "envAlerts = env0\<lparr>users := [freeUser, basicUser]\<rparr>"

definition expiring :: "string \<Rightarrow> int \<Rightarrow> string \<Rightarrow> event" where
  "expiring d days u = \<lparr>e_type = [], e_domain = d, daysUntilExpiry = days, urgency = Some u,
     price = 0, seller = None, owner = Some ''0xabc'',
     blockData = Some \<lparr>transactionHash = ''0xbbb'', blockNumber = 8\<rparr>\<rparr>"

definition noConditions :: alertConditions where
  "noConditions = \<lparr>daysThreshold = None, minUrgency = None, maxPrice = None, minPrice = None,
     saleTypes = None, domainPatterns = None\<rparr>"

definition domainRule :: "nat \<Rightarrow> nat \<Rightarrow> string \<Rightarrow> alert" where
  "domainRule n uid d = \<lparr>a_id = n, a_userId = uid, a_type = ''expiry'', a_domain = Some d,
     a_domainPattern = None, a_conditions = noConditions\<lparr>daysThreshold := Some 7\<rparr>,
     platform = ''telegram'', a_isActive = True, triggerCount = 0, lastTriggered = None\<rparr>"

definition patternRule :: "nat \<Rightarrow> nat \<Rightarrow> string \<Rightarrow> alert" where
  "patternRule n uid p = \<lparr>a_id = n, a_userId = uid, a_type = ''expiry'', a_domain = None,
     a_domainPattern = Some p, a_conditions = noConditions\<lparr>daysThreshold := Some 7\<rparr>,
     platform = ''telegram'', a_isActive = True, triggerCount = 0, lastTriggered = None\<rparr>"

definition saleRule :: "nat \<Rightarrow> nat \<Rightarrow> string \<Rightarrow> string list \<Rightarrow> alert" where
  "saleRule n uid d ps = \<lparr>a_id = n, a_userId = uid, a_type = ''sale'', a_domain = Some d,
     a_domainPattern = None, a_conditions = noConditions\<lparr>domainPatterns := Some ps\<rparr>,
     platform = ''telegram'', a_isActive = True, triggerCount = 0, lastTriggered = None\<rparr>"

definition stored :: "alert \<Rightarrow> alertRow" where
  "stored al = \<lparr>a_id = a_id al, a_userId = a_userId al, a_type = a_type al, a_domain = a_domain al,
     a_domainPattern = a_domainPattern al, a_conditions = Some (a_conditions al), platform = platform al,
     a_isActive = a_isActive al, triggerCount = triggerCount al, lastTriggered = lastTriggered al\<rparr>"

definition unparseable :: "alert \<Rightarrow> alertRow" where
  "unparseable al = \<lparr>a_id = a_id al, a_userId = a_userId al, a_type = a_type al, a_domain = a_domain al,
     a_domainPattern = a_domainPattern al, a_conditions = None, platform = platform al,
     a_isActive = a_isActive al, triggerCount = triggerCount al, lastTriggered = lastTriggered al\<rparr>"

definition storeRows :: "alertRow list \<Rightarrow> alertState" where
  "storeRows rows = \<lparr>processedEvents = [], alerts = rows, alert_logs = [], emitted = []\<rparr>"

definition store :: "alert list \<Rightarrow> alertState" where
  "store rules = storeRows (map stored rules)"

text \<open>Two owners whose accounts are not active (ids 10 and 11), on the free and the premium tier.\<close>

definition dormantFree :: user where
  "dormantFree = \<lparr>u_id = 10, subscriptionTier = ''free'', u_isActive = False,
     monthlySpendLimit = None, walletAddress = None\<rparr>"

definition dormantPremium :: user where
  "dormantPremium = \<lparr>u_id = 11, subscriptionTier = ''premium'', u_isActive = False,
     monthlySpendLimit = None, walletAddress = None\<rparr>"

definition envDormant :: env where
  "envDormant = env0\<lparr>users := [dormantFree, dormantPremium]\<rparr>"

definition envListenerDown :: env where
  "envListenerDown = envAlerts\<lparr>listenerThrows := (\<lambda>em. Some (Error ''bot offline''))\<rparr>"


definition envFlaky :: env where
  "envFlaky = envAlerts\<lparr>listenerThrows :=
     (\<lambda>em. if alertId (em_data em) = 5 then Some (Error ''bot offline'') else None)\<rparr>"

definition renewRule :: autoAction where
  "renewRule = \<lparr>aa_id = 4, aa_userId = 7, aa_type = ''renew'',
     aa_conditions = \<lparr>daysBeforeExpiry = Some 7, ac_minUrgency = None, renewalDuration = None,
        ac_maxPrice = None, ac_minPrice = None, ac_domainPatterns = None,
        targetDomains = Some [''web3.ape''], excludeSellers = None\<rparr>,
     maxAmount = 10, aa_isActive = True, executionCount = 0, lastExecuted = None\<rparr>"

section \<open>Observations\<close>

text \<open>The number of alerts emitted so far for the rule with id \<open>r\<close>.\<close>

definition dispatchCount :: "nat \<Rightarrow> alertState \<Rightarrow> nat" where
  "dispatchCount r s = length (filter (\<lambda>em. alertId (em_data em) = r) (emitted s))"

section \<open>The spending ledger\<close>

lemma checkSpendingLimits_installLock:
  "checkSpendingLimits env (installLock env' s k a ev) uid amt = checkSpendingLimits env s uid amt"
  by (simp add: checkSpendingLimits_def installLock_def currentSpending_def split: sum.splits option.splits)

lemma purchase_try_ledger: "monthlySpending (fst (executeAutoPurchase_try env s a ev)) = monthlySpending s"
  by (simp add: executeAutoPurchase_try_def Let_def installLock_def getUserSigner_def split: sum.splits)

lemma renewal_try_ledger: "monthlySpending (fst (executeAutoRenewal_try env s a ev)) = monthlySpending s"
  by (simp add: executeAutoRenewal_try_def Let_def installLock_def getUserSigner_def split: sum.splits)

lemma catch_ledger: "monthlySpending (executeAuto_catch k env s a ev err) = monthlySpending s"
  by (simp add: executeAuto_catch_def Let_def logAutoAction_def split: option.splits)

lemma purchase_ledger: "monthlySpending (fst (executeAutoPurchase env s a ev)) = monthlySpending s"
proof (cases "executeAutoPurchase_try env s a ev")
  case (Pair s1 r)
  then have "monthlySpending s1 = monthlySpending s"
    using purchase_try_ledger [of env s a ev] by simp
  with Pair show ?thesis
    by (cases r) (simp_all add: executeAutoPurchase_def executeAuto_finally_def catch_ledger)
qed

lemma renewal_ledger: "monthlySpending (fst (executeAutoRenewal env s a ev)) = monthlySpending s"
proof (cases "executeAutoRenewal_try env s a ev")
  case (Pair s1 r)
  then have "monthlySpending s1 = monthlySpending s"
    using renewal_try_ledger [of env s a ev] by simp
  with Pair show ?thesis
    by (cases r) (simp_all add: executeAutoRenewal_def executeAuto_finally_def catch_ledger)
qed

lemma purchase_rejected:
  assumes "activeActions s (purchaseKey action ev) = None"
      and "\<not> checkSpendingLimits env s (aa_userId action) (price ev)"
  shows "executeAutoPurchase_try env s action ev =
           (installLock env s (purchaseKey action ev) action ev, Some (Error ''Monthly spending limit exceeded''))"
  using assms by (simp add: executeAutoPurchase_try_def Let_def checkSpendingLimits_installLock)

lemma renewal_rejected:
  assumes "activeActions s (renewalKey action ev) = None"
      and "\<not> checkSpendingLimits env s (aa_userId action) (maxAmount action)"
  shows "executeAutoRenewal_try env s action ev =
           (installLock env s (renewalKey action ev) action ev, Some (Error ''Monthly spending limit exceeded''))"
  using assms by (simp add: executeAutoRenewal_try_def Let_def checkSpendingLimits_installLock)

lemma currentSpending_track:
  "currentSpending env (trackSpending env s uid amount) uid = plus env (currentSpending env s uid) amount"
  by (simp add: trackSpending_def Let_def currentSpending_def orElse_def)

lemma check_iff:
  assumes "getUserById env uid = Inr (Some u)"
  shows "checkSpendingLimits env s uid amt
           \<longleftrightarrow> plus env (currentSpending env s uid) amt \<le> monthlyLimit u"
  using assms by (simp add: checkSpendingLimits_def)

lemma skip_when_locked:
  assumes "activeActions s (purchaseKey action ev) \<noteq> None"
  shows "executeAutoPurchase env s action ev = (s, Some (ReferenceError ''actionKey is not defined''))"
  using assms by (simp add: executeAutoPurchase_def executeAutoPurchase_try_def executeAuto_finally_def)

lemma skip_when_locked_renewal:
  assumes "activeActions s (renewalKey action ev) \<noteq> None"
  shows "executeAutoRenewal env s action ev = (s, Some (ReferenceError ''actionKey is not defined''))"
  using assms by (simp add: executeAutoRenewal_def executeAutoRenewal_try_def executeAuto_finally_def)

lemma lock_stays_purchase:
  "activeActions (fst (executeAutoPurchase env s action ev)) (purchaseKey action ev) \<noteq> None"
  by (simp add: executeAutoPurchase_def executeAutoPurchase_try_def executeAuto_finally_def
      executeAuto_catch_def logAutoAction_def installLock_def Let_def getUserSigner_def
      split: sum.splits option.splits)

lemma lock_stays_renewal:
  "activeActions (fst (executeAutoRenewal env s action ev)) (renewalKey action ev) \<noteq> None"
  by (simp add: executeAutoRenewal_def executeAutoRenewal_try_def executeAuto_finally_def
      executeAuto_catch_def logAutoAction_def installLock_def Let_def getUserSigner_def
      split: sum.splits option.splits)

subsection \<open>Facts of the scenarios\<close>

lemma env0_fields:
  "users env0 = [premiumUser]" "dbFails env0 = (\<lambda>q. None)" "dateNow env0 = 1000"
  "currentMonth env0 = ''2024-05''" "listenerThrows env0 = (\<lambda>em. None)" "plus env0 x y = x + y"
  by (simp_all add: env0_def)

lemma premiumUser_fields:
  "u_id premiumUser = 7" "subscriptionTier premiumUser = ''premium''" "u_isActive premiumUser"
  "monthlySpendLimit premiumUser = Some 200"
  by (simp_all add: premiumUser_def)

lemma buyRule_fields:
  "aa_id buyRule = 3" "aa_userId buyRule = 7" "aa_type buyRule = ''buy''" "maxAmount buyRule = 50"
  "aa_isActive buyRule" "executionCount buyRule = 0"
  "ac_maxPrice (aa_conditions buyRule) = Some 50" "ac_minPrice (aa_conditions buyRule) = None"
  "ac_domainPatterns (aa_conditions buyRule) = Some [''*.ape'']"
  "targetDomains (aa_conditions buyRule) = None" "excludeSellers (aa_conditions buyRule) = None"
  by (simp_all add: buyRule_def)

lemma listing_fields:
  "e_type (listing d p) = ''listing''" "e_domain (listing d p) = d" "price (listing d p) = p"
  "seller (listing d p) = Some ''0xdef''"
  by (simp_all add: listing_def)

lemma premium_lookup: "getUserById env0 7 = Inr (Some premiumUser)"
  by (simp add: getUserById_def env0_fields premiumUser_fields)

lemma premium_cap: "monthlyLimit premiumUser = 200"
  by (simp add: monthlyLimit_def premiumUser_fields orElse_def)

lemma ledger150_fields:
  "activeActions ledger150 = Map.empty" "currentSpending env0 ledger150 7 = 150"
  by (simp_all add: ledger150_def emptyAuto_def currentSpending_def env0_fields orElse_def)

lemma headroom_fields:
  "activeActions headroom = Map.empty" "currentSpending env0 headroom 7 = 0"
  "auto_actions headroom = [buyRule]" "auto_action_logs headroom = []" "autoEmitted headroom = []"
  by (simp_all add: headroom_def emptyAuto_def currentSpending_def orElse_def)

text \<open>
  C10. The spending-limit check fails closed. When the owner lookup returns no user
  (the query rejects, or there is no such row, which makes \<open>user.monthlySpendLimit\<close> a
  TypeError), \<open>checkSpendingLimits\<close> is false for every amount; the \<open>try\<close> block of an
  execution that got the lock then ends with the spending-limit error, and nothing is
  committed to the ledger.
\<close>

theorem checkSpendingLimits_fails_closed:
  assumes "\<And>u. getUserById env (aa_userId action) \<noteq> Inr (Some u)"
  shows "\<not> checkSpendingLimits env s (aa_userId action) amount
       \<and> (activeActions s (purchaseKey action ev) = None \<longrightarrow>
            snd (executeAutoPurchase_try env s action ev) = Some (Error ''Monthly spending limit exceeded''))
       \<and> (activeActions s (renewalKey action ev) = None \<longrightarrow>
            snd (executeAutoRenewal_try env s action ev) = Some (Error ''Monthly spending limit exceeded''))
       \<and> monthlySpending (fst (executeAutoPurchase env s action ev)) = monthlySpending s
       \<and> monthlySpending (fst (executeAutoRenewal env s action ev)) = monthlySpending s"
proof -
  have closed: "\<not> checkSpendingLimits env s (aa_userId action) amt" for amt
    using assms by (auto simp: checkSpendingLimits_def split: sum.splits option.splits)
  show ?thesis
    using closed purchase_rejected [of s action ev env] renewal_rejected [of s action ev env]
    by (simp add: purchase_ledger renewal_ledger)
qed

theorem checkSpendingLimits_fails_closed_witness:
  "getUserById envDbDown (aa_userId buyRule) = Inl (Error ''SQLITE_BUSY'')
   \<and> \<not> checkSpendingLimits envDbDown ledger150 (aa_userId buyRule) 40
   \<and> activeActions ledger150 (purchaseKey buyRule (listing ''nft.ape'' 40)) = None
   \<and> snd (executeAutoPurchase_try envDbDown ledger150 buyRule (listing ''nft.ape'' 40))
       = Some (Error ''Monthly spending limit exceeded'')
   \<and> snd (executeAutoRenewal_try envDbDown ledger150 buyRule (listing ''nft.ape'' 40))
       = Some (Error ''Monthly spending limit exceeded'')"
proof -
  have lookup: "getUserById envDbDown (aa_userId buyRule) = Inl (Error ''SQLITE_BUSY'')"
    by (simp add: getUserById_def envDbDown_def)
  have free: "activeActions ledger150 (purchaseKey buyRule (listing ''nft.ape'' 40)) = None"
    by (simp add: ledger150_fields)
  have "\<And>u. getUserById envDbDown (aa_userId buyRule) \<noteq> Inr (Some u)"
    by (simp add: lookup)
  from checkSpendingLimits_fails_closed [OF this, of ledger150 40 "listing ''nft.ape'' 40"] lookup free
  show ?thesis by (simp add: ledger150_fields)
qed

text \<open>
  What does hold of the monthly cap. An execution that got the lock goes past the
  spending-limit check only when the month's committed spend plus the amount, as \<open>plus\<close>
  adds them, is within the owner's cap (\<open>monthlySpendLimit\<close>, or 200 when it is unset or
  0): an attempt whose \<open>try\<close> block ends otherwise than with the spending-limit error had
  a sum within the cap. An attempt whose sum exceeds the cap ends its \<open>try\<close> block with
  the spending-limit error, and the ledger is as before. With cap 200 and 150 committed,
  the purchase of amount 60 is rejected; amount 40 passes the check, and \<open>trackSpending\<close>
  of 40 makes the committed total 190.
\<close>

theorem spending_cap:
  "(getUserById env (aa_userId action) = Inr (Some u)
      \<and> activeActions s (purchaseKey action ev) = None
      \<and> snd (executeAutoPurchase_try env s action ev) \<noteq> Some (Error ''Monthly spending limit exceeded'')
      \<longrightarrow> plus env (currentSpending env s (aa_userId action)) (price ev) \<le> monthlyLimit u)
   \<and> (getUserById env (aa_userId action) = Inr (Some u)
      \<and> activeActions s (renewalKey action ev) = None
      \<and> snd (executeAutoRenewal_try env s action ev) \<noteq> Some (Error ''Monthly spending limit exceeded'')
      \<longrightarrow> plus env (currentSpending env s (aa_userId action)) (maxAmount action) \<le> monthlyLimit u)
   \<and> (getUserById env (aa_userId action) = Inr (Some u)
      \<and> activeActions s (purchaseKey action ev) = None
      \<and> monthlyLimit u < plus env (currentSpending env s (aa_userId action)) (price ev)
      \<longrightarrow> snd (executeAutoPurchase_try env s action ev) = Some (Error ''Monthly spending limit exceeded'')
          \<and> monthlySpending (fst (executeAutoPurchase env s action ev)) = monthlySpending s)
   \<and> (getUserById env (aa_userId action) = Inr (Some u)
      \<and> activeActions s (renewalKey action ev) = None
      \<and> monthlyLimit u < plus env (currentSpending env s (aa_userId action)) (maxAmount action)
      \<longrightarrow> snd (executeAutoRenewal_try env s action ev) = Some (Error ''Monthly spending limit exceeded'')
          \<and> monthlySpending (fst (executeAutoRenewal env s action ev)) = monthlySpending s)
   \<and> monthlyLimit premiumUser = 200 \<and> currentSpending env0 ledger150 7 = 150
   \<and> snd (executeAutoPurchase_try env0 ledger150 buyRule (listing ''nft.ape'' 60))
        = Some (Error ''Monthly spending limit exceeded'')
   \<and> checkSpendingLimits env0 ledger150 7 40
   \<and> currentSpending env0 (trackSpending env0 ledger150 7 40) 7 = 190"
proof -
  have purchase_only: "plus env (currentSpending env s (aa_userId action)) (price ev) \<le> monthlyLimit u"
    if "getUserById env (aa_userId action) = Inr (Some u)" "activeActions s (purchaseKey action ev) = None"
       "snd (executeAutoPurchase_try env s action ev) \<noteq> Some (Error ''Monthly spending limit exceeded'')"
  proof (rule ccontr)
    assume "\<not> plus env (currentSpending env s (aa_userId action)) (price ev) \<le> monthlyLimit u"
    then have "\<not> checkSpendingLimits env s (aa_userId action) (price ev)"
      by (simp add: check_iff [OF that(1)])
    from purchase_rejected [OF that(2) this] that(3) show False
      by simp
  qed
  have renewal_only: "plus env (currentSpending env s (aa_userId action)) (maxAmount action) \<le> monthlyLimit u"
    if "getUserById env (aa_userId action) = Inr (Some u)" "activeActions s (renewalKey action ev) = None"
       "snd (executeAutoRenewal_try env s action ev) \<noteq> Some (Error ''Monthly spending limit exceeded'')"
  proof (rule ccontr)
    assume "\<not> plus env (currentSpending env s (aa_userId action)) (maxAmount action) \<le> monthlyLimit u"
    then have "\<not> checkSpendingLimits env s (aa_userId action) (maxAmount action)"
      by (simp add: check_iff [OF that(1)])
    from renewal_rejected [OF that(2) this] that(3) show False
      by simp
  qed
  have purchase_over: "snd (executeAutoPurchase_try env s action ev) = Some (Error ''Monthly spending limit exceeded'')"
    if "getUserById env (aa_userId action) = Inr (Some u)" "activeActions s (purchaseKey action ev) = None"
       "monthlyLimit u < plus env (currentSpending env s (aa_userId action)) (price ev)"
  proof -
    have "\<not> checkSpendingLimits env s (aa_userId action) (price ev)"
      using that(3) by (simp add: check_iff [OF that(1)])
    from purchase_rejected [OF that(2) this] show ?thesis
      by simp
  qed
  have renewal_over: "snd (executeAutoRenewal_try env s action ev) = Some (Error ''Monthly spending limit exceeded'')"
    if "getUserById env (aa_userId action) = Inr (Some u)" "activeActions s (renewalKey action ev) = None"
       "monthlyLimit u < plus env (currentSpending env s (aa_userId action)) (maxAmount action)"
  proof -
    have "\<not> checkSpendingLimits env s (aa_userId action) (maxAmount action)"
      using that(3) by (simp add: check_iff [OF that(1)])
    from renewal_rejected [OF that(2) this] show ?thesis
      by simp
  qed
  have sixty: "snd (executeAutoPurchase_try env0 ledger150 buyRule (listing ''nft.ape'' 60))
        = Some (Error ''Monthly spending limit exceeded'')"
  proof -
    have "\<not> checkSpendingLimits env0 ledger150 (aa_userId buyRule) (price (listing ''nft.ape'' 60))"
      by (simp add: buyRule_fields listing_fields check_iff [OF premium_lookup] ledger150_fields premium_cap
          env0_fields)
    from purchase_rejected [OF _ this] show ?thesis
      by (simp add: ledger150_fields)
  qed
  have forty: "checkSpendingLimits env0 ledger150 7 40"
    by (simp add: check_iff [OF premium_lookup] ledger150_fields premium_cap env0_fields)
  have tracked: "currentSpending env0 (trackSpending env0 ledger150 7 40) 7 = 190"
    by (simp add: currentSpending_track ledger150_fields env0_fields)
  show ?thesis
    using purchase_only renewal_only purchase_over renewal_over sixty forty tracked
    by (simp add: purchase_ledger renewal_ledger premium_cap ledger150_fields)
qed

text \<open>
  The general part at the specification's figures and at the renewal rule: amount 60
  exceeds the cap and is rejected with the ledger unchanged; amount 40 and the renewal of
  amount 10 are not rejected, and their sums are within the cap.
\<close>

theorem spending_cap_witness:
  "getUserById env0 (aa_userId buyRule) = Inr (Some premiumUser)
   \<and> monthlyLimit premiumUser < plus env0 (currentSpending env0 ledger150 (aa_userId buyRule)) 60
   \<and> snd (executeAutoPurchase_try env0 ledger150 buyRule (listing ''nft.ape'' 60))
        = Some (Error ''Monthly spending limit exceeded'')
   \<and> monthlySpending (fst (executeAutoPurchase env0 ledger150 buyRule (listing ''nft.ape'' 60)))
        = monthlySpending ledger150
   \<and> snd (executeAutoRenewal_try env0 ledger150 (buyRule\<lparr>maxAmount := 60\<rparr>) (listing ''nft.ape'' 60))
        = Some (Error ''Monthly spending limit exceeded'')
   \<and> snd (executeAutoPurchase_try env0 ledger150 buyRule (listing ''nft.ape'' 40))
        \<noteq> Some (Error ''Monthly spending limit exceeded'')
   \<and> plus env0 (currentSpending env0 ledger150 (aa_userId buyRule)) 40 \<le> monthlyLimit premiumUser
   \<and> snd (executeAutoRenewal_try env0 ledger150 renewRule (expiring ''web3.ape'' 3 ''high''))
        \<noteq> Some (Error ''Monthly spending limit exceeded'')
   \<and> plus env0 (currentSpending env0 ledger150 (aa_userId renewRule)) 10 \<le> monthlyLimit premiumUser"
proof -
  let ?sixty = "listing ''nft.ape'' 60"
  let ?forty = "listing ''nft.ape'' 40"
  let ?expiry = "expiring ''web3.ape'' 3 ''high''"
  let ?rule60 = "buyRule\<lparr>maxAmount := 60\<rparr>"
  have renew: "aa_userId renewRule = 7" "maxAmount renewRule = 10"
    by (simp_all add: renewRule_def)
  have owner: "getUserById env0 (aa_userId buyRule) = Inr (Some premiumUser)"
      "getUserById env0 (aa_userId ?rule60) = Inr (Some premiumUser)"
      "getUserById env0 (aa_userId renewRule) = Inr (Some premiumUser)"
    by (simp_all add: buyRule_fields renew premium_lookup)
  have free: "activeActions ledger150 k = None" for k
    by (simp add: ledger150_fields)
  have over: "monthlyLimit premiumUser < plus env0 (currentSpending env0 ledger150 (aa_userId buyRule)) (price ?sixty)"
      "monthlyLimit premiumUser < plus env0 (currentSpending env0 ledger150 (aa_userId ?rule60)) (maxAmount ?rule60)"
    by (simp_all add: buyRule_fields listing_fields premium_cap ledger150_fields env0_fields)
  have checks: "checkSpendingLimits env0 ledger150 7 40" "checkSpendingLimits env0 ledger150 7 10"
    by (simp_all add: check_iff [OF premium_lookup] ledger150_fields premium_cap env0_fields)
  have not_rejected:
    "snd (executeAutoPurchase_try env0 ledger150 buyRule ?forty)
        \<noteq> Some (Error ''Monthly spending limit exceeded'')"
    "snd (executeAutoRenewal_try env0 ledger150 renewRule ?expiry)
        \<noteq> Some (Error ''Monthly spending limit exceeded'')"
    using checks
    by (simp_all add: executeAutoPurchase_try_def executeAutoRenewal_try_def Let_def
        checkSpendingLimits_installLock free buyRule_fields listing_fields renew premium_lookup
        getUserSigner_def)
  have purchase60: "snd (executeAutoPurchase_try env0 ledger150 buyRule ?sixty)
          = Some (Error ''Monthly spending limit exceeded'')
        \<and> monthlySpending (fst (executeAutoPurchase env0 ledger150 buyRule ?sixty)) = monthlySpending ledger150"
    using spending_cap [where env = env0 and s = ledger150 and action = buyRule and u = premiumUser
        and ev = "?sixty"] owner(1) free over(1)
    by blast
  have renewal60: "snd (executeAutoRenewal_try env0 ledger150 ?rule60 ?sixty)
          = Some (Error ''Monthly spending limit exceeded'')"
    using spending_cap [where env = env0 and s = ledger150 and action = "?rule60" and u = premiumUser
        and ev = "?sixty"] owner(2) free over(2)
    by blast
  have purchase40: "plus env0 (currentSpending env0 ledger150 (aa_userId buyRule)) (price ?forty)
        \<le> monthlyLimit premiumUser"
    using spending_cap [where env = env0 and s = ledger150 and action = buyRule and u = premiumUser
        and ev = "?forty"] owner(1) free not_rejected(1)
    by blast
  have renewal10: "plus env0 (currentSpending env0 ledger150 (aa_userId renewRule)) (maxAmount renewRule)
        \<le> monthlyLimit premiumUser"
    using spending_cap [where env = env0 and s = ledger150 and action = renewRule and u = premiumUser
        and ev = "?expiry"] owner(3) free not_rejected(2)
    by blast
  show ?thesis
    using owner(1) over(1) purchase60 renewal60 not_rejected purchase40 renewal10
    by (simp add: listing_fields renew)
qed

lemma no_rule_found: "getAutoActions env s type domain = []"
  by (simp add: getAutoActions_def whereColumns_def ambiguousColumn_def autoActionsColumns_def
      usersColumns_def)

lemma signer_failure:
  assumes "activeActions s (purchaseKey action ev) = None"
      and "checkSpendingLimits env s (aa_userId action) (price ev)"
      and "getUserById env (aa_userId action) = Inr u"
  shows "executeAutoPurchase env s action ev =
           (executeAuto_catch ''purchase'' env (installLock env s (purchaseKey action ev) action ev) action ev
              (Error ''Wallet integration not implemented - requires user signature''),
            Some (ReferenceError ''actionKey is not defined''))"
  using assms
  by (simp add: executeAutoPurchase_def executeAutoPurchase_try_def Let_def checkSpendingLimits_installLock
      getUserSigner_def executeAuto_finally_def)

text \<open>
  C1. With cap 200 and 150 committed, the auto-buy of amount 40 passes the spending-limit
  check (the sum is 190) but does not succeed: its \<open>try\<close> block ends with the error
  \<open>getUserSigner\<close> throws, before the transaction and \<open>trackSpending\<close>, and the committed
  total stays 150 instead of becoming 190. Handling the listing (\<open>checkAutoPurchase\<close>) with
  the rule in the table does not reach the rule and leaves the state as it was.
\<close>

theorem auto_buy_40_commits_nothing:
  "plus env0 (currentSpending env0 ledger150 7) 40 = 190 \<and> monthlyLimit premiumUser = 200
   \<and> checkSpendingLimits env0 ledger150 7 40
   \<and> snd (executeAutoPurchase_try env0 ledger150 buyRule (listing ''nft.ape'' 40))
       = Some (Error ''Wallet integration not implemented - requires user signature'')
   \<and> currentSpending env0 (fst (executeAutoPurchase env0 ledger150 buyRule (listing ''nft.ape'' 40))) 7 = 150
   \<and> currentSpending env0 (fst (executeAutoPurchase env0 ledger150 buyRule (listing ''nft.ape'' 40))) 7 \<noteq> 190
   \<and> checkAutoPurchase env0 (ledger150\<lparr>auto_actions := [buyRule]\<rparr>) (listing ''nft.ape'' 40)
       = (ledger150\<lparr>auto_actions := [buyRule]\<rparr>, None)"
proof -
  have handler: "checkAutoPurchase env0 (ledger150\<lparr>auto_actions := [buyRule]\<rparr>) (listing ''nft.ape'' 40)
       = (ledger150\<lparr>auto_actions := [buyRule]\<rparr>, None)"
    by (simp add: checkAutoPurchase_def checkAutoPurchase_try_def catchAll_def no_rule_found)
  have ok: "checkSpendingLimits env0 ledger150 7 40"
    by (simp add: check_iff [OF premium_lookup] ledger150_fields premium_cap env0_fields)
  have body: "snd (executeAutoPurchase_try env0 ledger150 buyRule (listing ''nft.ape'' 40))
       = Some (Error ''Wallet integration not implemented - requires user signature'')"
    using ok
    by (simp add: executeAutoPurchase_try_def Let_def checkSpendingLimits_installLock ledger150_fields
        buyRule_fields listing_fields premium_lookup getUserSigner_def)
  have same: "currentSpending env0 (fst (executeAutoPurchase env0 ledger150 buyRule (listing ''nft.ape'' 40))) 7
      = currentSpending env0 ledger150 7"
    by (simp add: currentSpending_def purchase_ledger)
  show ?thesis
    using ok body handler by (simp add: same ledger150_fields premium_cap env0_fields)
qed

section \<open>Evaluating patterns and the buy rule's conditions\<close>

lemmas regex_defs = conditionPatternTest_def likePatternTest_def compileRegExp_def replaceAll_def
  test_def matchAtom_def atomOf_def unmodelled_def upperOf_def

lemma nft_ape_matches: "conditionPatternTest env ''*.ape'' ''nft.ape'' = Inr True"
  by (simp add: regex_defs)

lemma buyRule_should_execute: "shouldExecuteAutoPurchase env buyRule (listing ''nft.ape'' 45) = Inr True"
  by (simp add: shouldExecuteAutoPurchase_def buyRule_fields listing_fields nft_ape_matches)

section \<open>The in-flight lock\<close>

lemma lockHeld_locked: "activeActions lockHeld (purchaseKey buyRule (listing ''nft.ape'' 45)) \<noteq> None"
  by (simp add: lockHeld_def)

text \<open>
  C2. An attempt that arrives while the lock for its key exists changes nothing (no log
  entry, no emission, the lock table as it was), but it does not end as a plain skip: the
  \<open>finally\<close> block runs after the early \<open>return\<close> and throws the ReferenceError, which
  reaches the per-rule \<open>catch\<close> of \<open>checkAutoPurchase\<close> as an error.
\<close>

theorem skipped_attempt_raises_ReferenceError:
  "activeActions lockHeld (purchaseKey buyRule (listing ''nft.ape'' 45)) \<noteq> None
   \<and> executeAutoPurchase env0 lockHeld buyRule (listing ''nft.ape'' 45)
       = (lockHeld, Some (ReferenceError ''actionKey is not defined''))
   \<and> purchaseStep_try env0 (listing ''nft.ape'' 45) lockHeld buyRule
       = (lockHeld, Some (ReferenceError ''actionKey is not defined''))"
  using lockHeld_locked
  by (simp add: skip_when_locked purchaseStep_try_def premium_lookup buyRule_should_execute
      buyRule_fields premiumUser_fields)

text \<open>
  C3. The lock is not released. Whatever the inputs, after \<open>executeAutoPurchase\<close> and
  after \<open>executeAutoRenewal\<close> the key is in \<open>activeActions\<close>, and the call ends with the
  ReferenceError of the \<open>finally\<close> block. In particular, from a state with no lock, the
  purchase of amount 60 against 150 committed aborts with the spending-limit error; after
  the call the key is still there, and a later attempt for the same rule and domain finds
  it and does nothing.
\<close>

theorem lock_left_after_abort:
  "activeActions (fst (executeAutoPurchase env s action ev)) (purchaseKey action ev) \<noteq> None
   \<and> activeActions (fst (executeAutoRenewal env s action ev)) (renewalKey action ev) \<noteq> None
   \<and> snd (executeAutoPurchase env s action ev) = Some (ReferenceError ''actionKey is not defined'')
   \<and> snd (executeAutoRenewal env s action ev) = Some (ReferenceError ''actionKey is not defined'')
   \<and> activeActions ledger150 (purchaseKey buyRule (listing ''nft.ape'' 60)) = None
   \<and> snd (executeAutoPurchase_try env0 ledger150 buyRule (listing ''nft.ape'' 60))
       = Some (Error ''Monthly spending limit exceeded'')
   \<and> activeActions (fst (executeAutoPurchase env0 ledger150 buyRule (listing ''nft.ape'' 60)))
       (purchaseKey buyRule (listing ''nft.ape'' 60)) \<noteq> None
   \<and> fst (executeAutoPurchase env0 (fst (executeAutoPurchase env0 ledger150 buyRule (listing ''nft.ape'' 60)))
            buyRule (listing ''nft.ape'' 60))
       = fst (executeAutoPurchase env0 ledger150 buyRule (listing ''nft.ape'' 60))"
proof -
  have free: "activeActions ledger150 (purchaseKey buyRule (listing ''nft.ape'' 60)) = None"
    by (simp add: ledger150_fields)
  have over: "\<not> checkSpendingLimits env0 ledger150 (aa_userId buyRule) (price (listing ''nft.ape'' 60))"
    by (simp add: buyRule_fields listing_fields check_iff [OF premium_lookup] ledger150_fields premium_cap
        env0_fields)
  have thrown: "snd (executeAutoPurchase env s action ev) = Some (ReferenceError ''actionKey is not defined'')"
      "snd (executeAutoRenewal env s action ev) = Some (ReferenceError ''actionKey is not defined'')"
    by (simp_all add: executeAutoPurchase_def executeAutoRenewal_def executeAuto_finally_def
        split: prod.splits option.splits)
  show ?thesis
    using purchase_rejected [OF free over] thrown
    by (simp add: free lock_stays_purchase lock_stays_renewal skip_when_locked)
qed

text \<open>
  What does hold of the lock: with the key present an execution leaves the whole state
  as it was, and with the key absent the \<open>try\<close> block enters exactly that key, so a key
  never has two entries and no attempt proceeds past a held lock.
\<close>

theorem lock_exclusive:
  "(activeActions s (purchaseKey a ev) \<noteq> None \<longrightarrow> fst (executeAutoPurchase env s a ev) = s)
   \<and> (activeActions s (renewalKey a ev) \<noteq> None \<longrightarrow> fst (executeAutoRenewal env s a ev) = s)
   \<and> (activeActions s (purchaseKey a ev) = None \<longrightarrow>
        activeActions (fst (executeAutoPurchase_try env s a ev))
          = (activeActions s)(purchaseKey a ev \<mapsto> \<lparr>startTime = dateNow env, ae_action = a, ae_event = ev\<rparr>))
   \<and> (activeActions s (renewalKey a ev) = None \<longrightarrow>
        activeActions (fst (executeAutoRenewal_try env s a ev))
          = (activeActions s)(renewalKey a ev \<mapsto> \<lparr>startTime = dateNow env, ae_action = a, ae_event = ev\<rparr>))"
  by (simp add: skip_when_locked skip_when_locked_renewal executeAutoPurchase_try_def
      executeAutoRenewal_try_def installLock_def Let_def getUserSigner_def split: sum.splits)

theorem lock_exclusive_witness:
  "fst (executeAutoPurchase env0 lockHeld buyRule (listing ''nft.ape'' 45)) = lockHeld
   \<and> activeActions (fst (executeAutoPurchase_try env0 headroom buyRule (listing ''nft.ape'' 45)))
       = [purchaseKey buyRule (listing ''nft.ape'' 45) \<mapsto>
            \<lparr>startTime = 1000, ae_action = buyRule, ae_event = listing ''nft.ape'' 45\<rparr>]"
  using lock_exclusive [of lockHeld buyRule "listing ''nft.ape'' 45" env0]
        lock_exclusive [of headroom buyRule "listing ''nft.ape'' 45" env0]
  by (simp add: lockHeld_locked headroom_fields env0_fields)

section \<open>The buy scenario\<close>

lemma headroom_check: "checkSpendingLimits env0 headroom 7 45"
  by (simp add: check_iff [OF premium_lookup] headroom_fields premium_cap env0_fields)

lemma listing_run:
  "executeAutoPurchase env0 headroom buyRule (listing ''nft.ape'' 45) =
     (executeAuto_catch ''purchase'' env0
        (installLock env0 headroom (purchaseKey buyRule (listing ''nft.ape'' 45)) buyRule (listing ''nft.ape'' 45))
        buyRule (listing ''nft.ape'' 45)
        (Error ''Wallet integration not implemented - requires user signature''),
      Some (ReferenceError ''actionKey is not defined''))"
  by (rule signer_failure) (simp_all add: headroom_fields buyRule_fields listing_fields headroom_check premium_lookup)

text \<open>
  C4. The buy rule with \<open>maxPrice\<close> 50, pattern \<open>*.ape\<close> and \<open>maxAmount\<close> 50, the listing of
  \<open>nft.ape\<close> at 45, a premium owner and an empty ledger. The rule's conditions and the
  spending-limit check pass, and no execution succeeds. Handling the listing
  (\<open>checkAutoPurchase\<close>) leaves the state as it was: the lookup of the buy rules returns
  none. Executing the rule for the listing (\<open>executeAutoPurchase\<close>) fails at
  \<open>getUserSigner\<close>: one failed log entry with amount 0 is written, \<open>autoActionFailed\<close> is
  emitted, the ledger stays at 0 and the rule's \<open>executionCount\<close> at 0.
\<close>

theorem listing_no_successful_execution:
  "shouldExecuteAutoPurchase env0 buyRule (listing ''nft.ape'' 45) = Inr True
   \<and> checkSpendingLimits env0 headroom 7 45
   \<and> getAutoActions env0 headroom ''buy'' None = []
   \<and> checkAutoPurchase env0 headroom (listing ''nft.ape'' 45) = (headroom, None)
   \<and> currentSpending env0 headroom 7 = 0
   \<and> map executionCount (auto_actions headroom) = [0]
   \<and> snd (executeAutoPurchase_try env0 headroom buyRule (listing ''nft.ape'' 45))
       = Some (Error ''Wallet integration not implemented - requires user signature'')
   \<and> currentSpending env0 (fst (executeAutoPurchase env0 headroom buyRule (listing ''nft.ape'' 45))) 7 = 0
   \<and> map executionCount (auto_actions (fst (executeAutoPurchase env0 headroom buyRule (listing ''nft.ape'' 45))))
       = [0]
   \<and> auto_action_logs (fst (executeAutoPurchase env0 headroom buyRule (listing ''nft.ape'' 45))) =
       [\<lparr>l_actionId = 3, l_userId = 7, l_domain = ''nft.ape'', l_amount = 0,
         l_transactionHash = None, l_status = ''failed'',
         l_errorMessage = Some ''Wallet integration not implemented - requires user signature''\<rparr>]
   \<and> autoEmitted (fst (executeAutoPurchase env0 headroom buyRule (listing ''nft.ape'' 45))) =
       [AutoActionFailed ''purchase'' 7 ''nft.ape''
          ''Wallet integration not implemented - requires user signature'']"
proof -
  have handler: "checkAutoPurchase env0 headroom (listing ''nft.ape'' 45) = (headroom, None)"
    by (simp add: checkAutoPurchase_def checkAutoPurchase_try_def catchAll_def no_rule_found)
  have body: "snd (executeAutoPurchase_try env0 headroom buyRule (listing ''nft.ape'' 45))
       = Some (Error ''Wallet integration not implemented - requires user signature'')"
    using headroom_check
    by (simp add: executeAutoPurchase_try_def Let_def checkSpendingLimits_installLock headroom_fields
        buyRule_fields listing_fields premium_lookup getUserSigner_def)
  have same: "currentSpending env0 (fst (executeAutoPurchase env0 headroom buyRule (listing ''nft.ape'' 45))) 7
      = currentSpending env0 headroom 7"
    by (simp add: currentSpending_def purchase_ledger)
  show ?thesis
    using body
    by (simp add: handler same no_rule_found buyRule_should_execute headroom_check headroom_fields
        buyRule_fields)
       (simp add: listing_run executeAuto_catch_def Let_def logAutoAction_def env0_fields installLock_def
          headroom_fields buyRule_fields listing_fields premiumUser_fields)
qed

section \<open>Domain patterns\<close>

text \<open>
  C6. The two matchers the claim names do not behave as it says. In \<open>getAlertsByPattern\<close>
  the wildcards are \<open>%\<close> and \<open>_\<close>, and \<open>*\<close> is left in the RegExp source: \<open>*.ape\<close> becomes
  \<open>^*.ape$\<close>, which the constructor rejects, so the pattern matches no domain, and
  \<open>a*c.ape\<close> (zero or more \<open>a\<close>, then \<open>c\<close>) does not match \<open>abc.ape\<close>. In
  \<open>shouldTriggerSaleAlert\<close> the \<open>*\<close> is translated but the source is not anchored:
  \<open>*.ape\<close> matches \<open>web3.apex\<close> and \<open>grape.com\<close>.
\<close>

theorem star_pattern_rejected:
  "newRegExp ''^*.ape$'' = Inl (SyntaxError ''Nothing to repeat'')
   \<and> likePatternTest env ''*.ape'' ''web3.ape'' = False
   \<and> likePatternTest env ''*.ape'' ''x.ape'' = False
   \<and> likePatternTest env ''a*c.ape'' ''abc.ape'' = False
   \<and> getAlertsByPattern envAlerts (store [patternRule 5 9 ''*.ape'']) ''web3.ape'' ''expiry'' = Inr []
   \<and> conditionPatternTest env ''*.ape'' ''web3.ape'' = Inr True
   \<and> conditionPatternTest env ''*.ape'' ''web3.apex'' = Inr True
   \<and> shouldTriggerSaleAlert env (saleRule 6 9 ''grape.com'' [''*.ape'']) (listing ''grape.com'' 45) = Inr True"
proof -
  have rejected: "newRegExp ''^*.ape$'' = Inl (SyntaxError ''Nothing to repeat'')"
    by (simp add: unmodelled_def)
  have l1: "likePatternTest e ''*.ape'' d = False" for e d
    by (simp add: likePatternTest_def compileRegExp_def replaceAll_def unmodelled_def)
  have l2: "likePatternTest env ''a*c.ape'' ''abc.ape'' = False"
    by (simp add: regex_defs)
  have g: "getAlertsByPattern envAlerts (store [patternRule 5 9 ''*.ape'']) ''web3.ape'' ''expiry'' = Inr []"
    by (simp add: getAlertsByPattern_def envAlerts_def env0_def store_def storeRows_def stored_def
        patternRule_def l1)
  have c1: "conditionPatternTest env ''*.ape'' ''web3.ape'' = Inr True"
    by (simp add: regex_defs)
  have c2: "conditionPatternTest env ''*.ape'' ''web3.apex'' = Inr True"
    by (simp add: regex_defs)
  have c3: "conditionPatternTest env ''*.ape'' ''grape.com'' = Inr True"
    by (simp add: regex_defs)
  have s: "shouldTriggerSaleAlert env (saleRule 6 9 ''grape.com'' [''*.ape'']) (listing ''grape.com'' 45) = Inr True"
    by (simp add: shouldTriggerSaleAlert_def saleRule_def noConditions_def listing_fields c3)
  show ?thesis
    using rejected l1 l2 g c1 c2 s by simp
qed

section \<open>The alert service\<close>

lemma envAlerts_fields:
  "users envAlerts = [freeUser, basicUser]" "dbFails envAlerts = (\<lambda>q. None)" "dateNow envAlerts = 1000"
  "listenerThrows envAlerts = (\<lambda>em. None)"
  by (simp_all add: envAlerts_def env0_def)

lemma envListenerDown_fields:
  "users envListenerDown = [freeUser, basicUser]" "dbFails envListenerDown = (\<lambda>q. None)"
  "dateNow envListenerDown = 1000" "listenerThrows envListenerDown = (\<lambda>em. Some (Error ''bot offline''))"
  by (simp_all add: envListenerDown_def envAlerts_def env0_def)

lemma envDormant_fields:
  "users envDormant = [dormantFree, dormantPremium]" "dbFails envDormant = (\<lambda>q. None)"
  "dateNow envDormant = 1000" "listenerThrows envDormant = (\<lambda>em. None)"
  by (simp_all add: envDormant_def env0_def)

lemma alert_users:
  "getUserById envAlerts 8 = Inr (Some freeUser)" "getUserById envAlerts 9 = Inr (Some basicUser)"
  "getUserById envListenerDown 9 = Inr (Some basicUser)"
  "getUserById envDormant 10 = Inr (Some dormantFree)" "getUserById envDormant 11 = Inr (Some dormantPremium)"
  by (simp_all add: getUserById_def envAlerts_fields envListenerDown_fields envDormant_fields
      freeUser_def basicUser_def dormantFree_def dormantPremium_def)

lemma user_fields:
  "subscriptionTier freeUser = ''free''" "u_isActive freeUser"
  "subscriptionTier basicUser = ''basic''" "u_isActive basicUser"
  "subscriptionTier dormantFree = ''free''" "\<not> u_isActive dormantFree"
  "subscriptionTier dormantPremium = ''premium''" "\<not> u_isActive dormantPremium"
  by (simp_all add: freeUser_def basicUser_def dormantFree_def dormantPremium_def)

lemma expiryAlertData_fields:
  "ad_userId (expiryAlertData al ev) = a_userId al" "ad_urgency (expiryAlertData al ev) = urgency ev"
  "alertId (expiryAlertData al ev) = a_id al"
  by (simp_all add: expiryAlertData_def)

lemma rule_fields:
  "a_id (domainRule n uid d) = n" "a_userId (domainRule n uid d) = uid"
  "a_id (patternRule n uid d) = n" "a_userId (patternRule n uid d) = uid"
  by (simp_all add: domainRule_def patternRule_def)

lemma expiring_fields:
  "urgency (expiring d n u) = Some u" "e_domain (expiring d n u) = d" "daysUntilExpiry (expiring d n u) = n"
  "blockData (expiring d n u) = Some \<lparr>transactionHash = ''0xbbb'', blockNumber = 8\<rparr>"
  by (simp_all add: expiring_def)

subsection \<open>Rows and rules\<close>

lemma parse_stored: "parseConditions (stored al) = Inr al"
  by (simp add: parseConditions_def stored_def)

lemma parse_unparseable: "parseConditions (unparseable al) = Inl (SyntaxError ''Unexpected token in JSON'')"
  by (simp add: parseConditions_def unparseable_def)

lemma parseRows_stored: "parseRows (map stored rs) = Inr rs"
  by (induction rs) (simp_all add: parse_stored)

lemma stored_fields:
  "a_id (stored al) = a_id al" "a_type (stored al) = a_type al" "a_domain (stored al) = a_domain al"
  "a_domainPattern (stored al) = a_domainPattern al" "a_isActive (stored al) = a_isActive al"
  "triggerCount (stored al) = triggerCount al"
  by (simp_all add: stored_def)

lemma unparseable_fields:
  "a_id (unparseable al) = a_id al" "a_type (unparseable al) = a_type al"
  "a_domain (unparseable al) = a_domain al" "a_domainPattern (unparseable al) = a_domainPattern al"
  "a_isActive (unparseable al) = a_isActive al"
  by (simp_all add: unparseable_def)

lemma stored_counted:
  "(stored al)\<lparr>triggerCount := n, lastTriggered := t\<rparr> = stored (al\<lparr>triggerCount := n, lastTriggered := t\<rparr>)"
  by (simp add: stored_def)

lemma store_fields:
  "processedEvents (store rs) = []" "alerts (store rs) = map stored rs" "alert_logs (store rs) = []"
  "emitted (store rs) = []"
  by (simp_all add: store_def storeRows_def)

lemma rule_columns:
  "a_isActive (domainRule n uid d)" "a_domain (domainRule n uid d) = Some d"
  "a_domainPattern (domainRule n uid d) = None" "a_type (domainRule n uid d) = ''expiry''"
  "a_isActive (patternRule n uid p)" "a_domain (patternRule n uid p) = None"
  "a_domainPattern (patternRule n uid p) = Some p" "a_type (patternRule n uid p) = ''expiry''"
  by (simp_all add: domainRule_def patternRule_def)

text \<open>
  C7 (as amended). The frequency gate is closed exactly for the free tier with an urgency
  other than \<open>critical\<close>. For an active owner: with the gate closed \<open>sendAlert\<close> returns
  with the state as it was (no emission, no log entry); with the gate open the alert is
  handed to the listeners at once, emitted when no listener throws and ending the \<open>try\<close>
  block with the listener's error otherwise. For an owner who is not active, or has no
  row, \<open>sendAlert\<close> returns with the state as it was, whatever the tier and the urgency.
\<close>

theorem frequency_gate:
  "checkAlertFrequency u ad = (ad_urgency ad = Some ''critical'' \<or> subscriptionTier u \<noteq> ''free'')
   \<and> (getUserById env (ad_userId ad) = Inr (Some u) \<and> u_isActive u
        \<and> subscriptionTier u = ''free'' \<and> ad_urgency ad \<noteq> Some ''critical'' \<longrightarrow>
        sendAlert env s ad = (s, None))
   \<and> (getUserById env (ad_userId ad) = Inr (Some u) \<and> u_isActive u
        \<and> (subscriptionTier u \<noteq> ''free'' \<or> ad_urgency ad = Some ''critical'')
        \<and> listenerThrows env \<lparr>em_data = ad, em_user = u\<rparr> = None \<longrightarrow>
        emitted (fst (sendAlert env s ad)) = emitted s @ [\<lparr>em_data = ad, em_user = u\<rparr>])
   \<and> (getUserById env (ad_userId ad) = Inr (Some u) \<and> u_isActive u
        \<and> (subscriptionTier u \<noteq> ''free'' \<or> ad_urgency ad = Some ''critical'')
        \<and> listenerThrows env \<lparr>em_data = ad, em_user = u\<rparr> = Some e \<longrightarrow>
        sendAlert_try env s ad = (s, Some e))
   \<and> (getUserById env (ad_userId ad) = Inr (Some u) \<and> \<not> u_isActive u \<longrightarrow>
        sendAlert env s ad = (s, None))
   \<and> (getUserById env (ad_userId ad) = Inr None \<longrightarrow> sendAlert env s ad = (s, None))"
proof -
  have gate: "checkAlertFrequency u ad = (ad_urgency ad = Some ''critical'' \<or> subscriptionTier u \<noteq> ''free'')"
    by (auto simp: checkAlertFrequency_def)
  have closed: "sendAlert env s ad = (s, None)"
    if "getUserById env (ad_userId ad) = Inr (Some u)" "u_isActive u" "\<not> checkAlertFrequency u ad"
    using that by (simp add: sendAlert_def sendAlert_try_def)
  have opened: "emitted (fst (sendAlert env s ad)) = emitted s @ [\<lparr>em_data = ad, em_user = u\<rparr>]"
    if "getUserById env (ad_userId ad) = Inr (Some u)" "u_isActive u" "checkAlertFrequency u ad"
       "listenerThrows env \<lparr>em_data = ad, em_user = u\<rparr> = None"
    using that
    by (simp add: sendAlert_def sendAlert_try_def sendAlert_catch_def logAlertToDb_def Let_def
        split: option.splits)
  have thrown: "sendAlert_try env s ad = (s, Some e)"
    if "getUserById env (ad_userId ad) = Inr (Some u)" "u_isActive u" "checkAlertFrequency u ad"
       "listenerThrows env \<lparr>em_data = ad, em_user = u\<rparr> = Some e"
    using that by (simp add: sendAlert_try_def Let_def)
  have inactive: "sendAlert env s ad = (s, None)"
    if "getUserById env (ad_userId ad) = Inr (Some u)" "\<not> u_isActive u"
    using that by (simp add: sendAlert_def sendAlert_try_def)
  have missing: "sendAlert env s ad = (s, None)" if "getUserById env (ad_userId ad) = Inr None"
    using that by (simp add: sendAlert_def sendAlert_try_def)
  show ?thesis
    using gate closed opened thrown inactive missing by auto
qed

theorem frequency_gate_witness:
  "sendAlert envAlerts (store []) (expiryAlertData (domainRule 5 8 ''web3.ape'') (expiring ''web3.ape'' 3 ''medium''))
     = (store [], None)
   \<and> emitted (fst (sendAlert envAlerts (store [])
        (expiryAlertData (domainRule 5 8 ''web3.ape'') (expiring ''web3.ape'' 3 ''critical''))))
     = [\<lparr>em_data = expiryAlertData (domainRule 5 8 ''web3.ape'') (expiring ''web3.ape'' 3 ''critical''),
         em_user = freeUser\<rparr>]
   \<and> emitted (fst (sendAlert envAlerts (store [])
        (expiryAlertData (domainRule 5 9 ''web3.ape'') (expiring ''web3.ape'' 3 ''low''))))
     = [\<lparr>em_data = expiryAlertData (domainRule 5 9 ''web3.ape'') (expiring ''web3.ape'' 3 ''low''),
         em_user = basicUser\<rparr>]
   \<and> sendAlert_try envListenerDown (store [])
        (expiryAlertData (domainRule 5 9 ''web3.ape'') (expiring ''web3.ape'' 3 ''low''))
     = (store [], Some (Error ''bot offline''))
   \<and> sendAlert envDormant (store [])
        (expiryAlertData (domainRule 5 11 ''web3.ape'') (expiring ''web3.ape'' 3 ''critical''))
     = (store [], None)
   \<and> getUserById envAlerts 12 = Inr None
   \<and> sendAlert envAlerts (store [])
        (expiryAlertData (domainRule 5 12 ''web3.ape'') (expiring ''web3.ape'' 3 ''critical''))
     = (store [], None)"
proof -
  let ?medium = "expiryAlertData (domainRule 5 8 ''web3.ape'') (expiring ''web3.ape'' 3 ''medium'')"
  let ?critical = "expiryAlertData (domainRule 5 8 ''web3.ape'') (expiring ''web3.ape'' 3 ''critical'')"
  let ?low = "expiryAlertData (domainRule 5 9 ''web3.ape'') (expiring ''web3.ape'' 3 ''low'')"
  let ?dormant = "expiryAlertData (domainRule 5 11 ''web3.ape'') (expiring ''web3.ape'' 3 ''critical'')"
  let ?nobody = "expiryAlertData (domainRule 5 12 ''web3.ape'') (expiring ''web3.ape'' 3 ''critical'')"
  have nobody: "getUserById envAlerts 12 = Inr None"
    by (simp add: getUserById_def envAlerts_fields freeUser_def basicUser_def)
  have fields: "ad_userId ?medium = 8" "ad_userId ?critical = 8" "ad_userId ?low = 9"
      "ad_userId ?dormant = 11" "ad_userId ?nobody = 12"
      "ad_urgency ?medium = Some ''medium''" "ad_urgency ?critical = Some ''critical''"
      "ad_urgency ?low = Some ''low''" "ad_urgency ?dormant = Some ''critical''"
    by (simp_all add: expiryAlertData_fields rule_fields expiring_fields)
  from frequency_gate [where env = envAlerts and s = "store []" and ad = "?medium" and u = freeUser
         and e = "Error ''bot offline''"]
       frequency_gate [where env = envAlerts and s = "store []" and ad = "?critical" and u = freeUser
         and e = "Error ''bot offline''"]
       frequency_gate [where env = envAlerts and s = "store []" and ad = "?low" and u = basicUser
         and e = "Error ''bot offline''"]
       frequency_gate [where env = envListenerDown and s = "store []" and ad = "?low" and u = basicUser
         and e = "Error ''bot offline''"]
       frequency_gate [where env = envDormant and s = "store []" and ad = "?dormant" and u = dormantPremium
         and e = "Error ''bot offline''"]
       frequency_gate [where env = envAlerts and s = "store []" and ad = "?nobody" and u = freeUser
         and e = "Error ''bot offline''"]
  show ?thesis
    by (simp add: fields alert_users nobody user_fields envAlerts_fields envListenerDown_fields
        envDormant_fields store_fields)
qed

lemma gated_out:
  assumes "getUserById env (ad_userId ad) = Inr (Some u)" and "u_isActive u"
      and "\<not> checkAlertFrequency u ad"
  shows "sendAlert env s ad = (s, None)"
  using assms by (simp add: sendAlert_def sendAlert_try_def)

lemma inactive_out:
  assumes "getUserById env (ad_userId ad) = Inr (Some u)" and "\<not> u_isActive u"
  shows "sendAlert env s ad = (s, None)"
  using assms by (simp add: sendAlert_def sendAlert_try_def)

lemma sendAlert_alerts: "alerts (fst (sendAlert env s ad)) = alerts s"
  by (simp add: sendAlert_def sendAlert_try_def sendAlert_catch_def logAlertToDb_def Let_def
      split: sum.splits option.splits)

lemma sendAlert_no_error: "snd (sendAlert env s ad) = None"
  by (simp add: sendAlert_def split: prod.splits option.splits)

lemma sendAndCount_counts:
  assumes "dbFails env UpdateAlertTrigger = None"
  shows "sendAndCount env s ad aid =
     ((fst (sendAlert env s ad))\<lparr>alerts :=
         map (\<lambda>a. if a_id a = aid
                   then a\<lparr>triggerCount := triggerCount a + 1, lastTriggered := Some (dateNow env)\<rparr>
                   else a) (alerts (fst (sendAlert env s ad)))\<rparr>, None)"
proof (cases "sendAlert env s ad")
  case (Pair s1 r)
  then have "r = None"
    using sendAlert_no_error [of env s ad] by simp
  with Pair assms show ?thesis
    by (simp add: sendAndCount_def incrementTriggerCount_def)
qed

lemma rule_counts: "triggerCount (domainRule n uid d) = 0" "triggerCount (patternRule n uid d) = 0"
  by (simp_all add: domainRule_def patternRule_def)

lemma direct_lookup:
  assumes "dbFails env SelectAlerts = None"
      and "\<And>al. al \<in> set rs \<Longrightarrow> a_isActive al \<and> a_type al = ''expiry''
              \<and> (a_domain al = Some d \<or> a_domainPattern al = Some d)"
  shows "getAlertsByDomain env (store rs) d ''expiry'' = Inr rs"
proof -
  have "filter (\<lambda>a. a_isActive a \<and> (a_domain a = Some d \<or> a_domainPattern a = Some d)
                  \<and> (''expiry'' = [] \<or> a_type a = ''expiry'')) (map stored rs) = map stored rs"
    using assms(2) by (intro filter_True) (auto simp: stored_fields)
  with assms(1) show ?thesis
    by (simp add: getAlertsByDomain_def store_fields parseRows_stored)
qed

lemma no_pattern_lookup:
  assumes "dbFails env SelectAlerts = None"
      and "\<And>al. al \<in> set rs \<Longrightarrow> a_domainPattern al = None"
  shows "getAlertsByPattern env (store rs) d t = Inr []"
proof -
  have "filter (\<lambda>a. a_isActive a \<and> a_domainPattern a \<noteq> None \<and> (t = [] \<or> a_type a = t)) (map stored rs) = []"
    using assms(2) by (auto simp: filter_empty_conv stored_fields)
  with assms(1) show ?thesis
    by (simp add: getAlertsByPattern_def store_fields)
qed

lemma web3_lookups:
  assumes "dbFails env SelectAlerts = None"
  shows "getAlertsByDomain env (store [domainRule n uid d]) d ''expiry'' = Inr [domainRule n uid d]"
    and "getAlertsByPattern env (store [domainRule n uid d]) d ''expiry'' = Inr []"
  by (rule direct_lookup [OF assms], simp add: rule_columns)
     (rule no_pattern_lookup [OF assms], simp add: rule_columns)

lemma web3_triggers: "shouldTriggerExpiryAlert (domainRule n uid d) (expiring d' 3 u)"
  by (simp add: shouldTriggerExpiryAlert_def domainRule_def noConditions_def expiring_fields)

text \<open>
  One expiry rule bound to the event's domain, whose alert \<open>sendAlert\<close> does not deliver:
  the handler records the event, counts one trigger for the rule, and emits and logs nothing.
\<close>

lemma undelivered_run:
  assumes "dbFails env = (\<lambda>q. None)"
      and "\<And>s. sendAlert env s (expiryAlertData (domainRule n uid d) (expiring d 3 u)) = (s, None)"
  shows "fst (processExpiryEvent env (store [domainRule n uid d]) (expiring d 3 u))
     = \<lparr>processedEvents = [''0xbbb-expiry''],
        alerts = [stored ((domainRule n uid d)\<lparr>triggerCount := 1, lastTriggered := Some (dateNow env)\<rparr>)],
        alert_logs = [], emitted = []\<rparr>"
proof -
  have db: "dbFails env SelectAlerts = None" "dbFails env UpdateAlertTrigger = None"
    by (simp_all add: assms(1))
  show ?thesis
    by (simp add: processExpiryEvent_def processExpiryEvent_try_def catchAll_def expiring_fields
        web3_lookups [OF db(1)] expiryStep_try_def web3_triggers sendAndCount_counts [OF db(2)] assms(2)
        rule_fields Let_def)
       (simp add: store_def storeRows_def setAdd_def cleanOld_def stored_fields stored_counted
          rule_fields rule_counts)
qed

lemma medium_gated:
  "sendAlert envAlerts s (expiryAlertData (domainRule 5 8 ''web3.ape'') (expiring ''web3.ape'' 3 ''medium''))
     = (s, None)"
  by (rule gated_out [where u = freeUser])
     (simp_all add: expiryAlertData_fields rule_fields alert_users user_fields checkAlertFrequency_def
        expiring_fields)

lemma gated_run:
  "fst (processExpiryEvent envAlerts (store [domainRule 5 8 ''web3.ape'']) (expiring ''web3.ape'' 3 ''medium''))
     = \<lparr>processedEvents = [''0xbbb-expiry''],
        alerts = [stored ((domainRule 5 8 ''web3.ape'')\<lparr>triggerCount := 1, lastTriggered := Some 1000\<rparr>)],
        alert_logs = [], emitted = []\<rparr>"
  using undelivered_run [of envAlerts 5 8 "''web3.ape''" "''medium''"]
  by (simp add: envAlerts_fields medium_gated)

text \<open>
  C7 as stated fails on the code: an owner whose account is not active gets nothing,
  also on the premium tier and also at urgency \<open>critical\<close>. The rule's conditions pass
  and the frequency gate is open; \<open>sendAlert\<close> returns at the test of \<open>isActive\<close>, and the
  handler emits nothing while it counts a trigger for the rule.
\<close>

theorem inactive_owner_not_notified:
  "shouldTriggerExpiryAlert (domainRule 5 10 ''web3.ape'') (expiring ''web3.ape'' 3 ''critical'')
   \<and> checkAlertFrequency dormantFree
        (expiryAlertData (domainRule 5 10 ''web3.ape'') (expiring ''web3.ape'' 3 ''critical''))
   \<and> checkAlertFrequency dormantPremium
        (expiryAlertData (domainRule 6 11 ''web3.ape'') (expiring ''web3.ape'' 3 ''critical''))
   \<and> emitted (fst (processExpiryEvent envDormant (store [domainRule 5 10 ''web3.ape''])
                      (expiring ''web3.ape'' 3 ''critical''))) = []
   \<and> emitted (fst (processExpiryEvent envDormant (store [domainRule 6 11 ''web3.ape''])
                      (expiring ''web3.ape'' 3 ''critical''))) = []
   \<and> map triggerCount (alerts (fst (processExpiryEvent envDormant (store [domainRule 6 11 ''web3.ape''])
                      (expiring ''web3.ape'' 3 ''critical'')))) = [1]"
proof -
  have silent:
    "sendAlert envDormant s (expiryAlertData (domainRule 5 10 ''web3.ape'') (expiring ''web3.ape'' 3 ''critical''))
       = (s, None)"
    "sendAlert envDormant s (expiryAlertData (domainRule 6 11 ''web3.ape'') (expiring ''web3.ape'' 3 ''critical''))
       = (s, None)" for s
    by (rule inactive_out [where u = dormantFree], simp_all add: expiryAlertData_fields rule_fields alert_users user_fields)
       (rule inactive_out [where u = dormantPremium], simp_all add: expiryAlertData_fields rule_fields alert_users user_fields)
  have gates: "checkAlertFrequency dormantFree
        (expiryAlertData (domainRule 5 10 ''web3.ape'') (expiring ''web3.ape'' 3 ''critical''))"
      "checkAlertFrequency dormantPremium
        (expiryAlertData (domainRule 6 11 ''web3.ape'') (expiring ''web3.ape'' 3 ''critical''))"
    by (simp_all add: checkAlertFrequency_def expiryAlertData_fields expiring_fields user_fields)
  show ?thesis
    using undelivered_run [of envDormant 5 10 "''web3.ape''" "''critical''"]
          undelivered_run [of envDormant 6 11 "''web3.ape''" "''critical''"]
    by (simp add: envDormant_fields silent gates web3_triggers stored_fields rule_counts)
qed

text \<open>
  C8 (as amended). \<open>sendAlert\<close> returns normally whatever happened to the delivery, and
  the caller increments the trigger count right after it: the rule's \<open>triggerCount\<close> and
  \<open>lastTriggered\<close> are updated after every \<open>sendAlert\<close> call, whenever the update itself
  succeeds. \<open>sendAlert\<close> alone never changes them. After a hand-off to the listeners a
  log entry with status \<open>sent\<close> is appended; when a listener throws, nothing is recorded
  as emitted and a log entry with status \<open>failed\<close> is appended.
\<close>

theorem trigger_count_after_every_send:
  "alerts (fst (sendAlert env s ad)) = alerts s
   \<and> (dbFails env UpdateAlertTrigger = None \<longrightarrow>
        alerts (fst (sendAndCount env s ad aid)) =
          map (\<lambda>a. if a_id a = aid
                    then a\<lparr>triggerCount := triggerCount a + 1, lastTriggered := Some (dateNow env)\<rparr>
                    else a) (alerts s))
   \<and> (getUserById env (ad_userId ad) = Inr (Some u) \<and> u_isActive u \<and> checkAlertFrequency u ad
        \<and> listenerThrows env \<lparr>em_data = ad, em_user = u\<rparr> = None
        \<and> dbFails env (InsertAlertLog ''sent'') = None \<longrightarrow>
        emitted (fst (sendAlert env s ad)) = emitted s @ [\<lparr>em_data = ad, em_user = u\<rparr>]
        \<and> alert_logs (fst (sendAlert env s ad)) = alert_logs s @ [logEntry ad ''sent''])
   \<and> (getUserById env (ad_userId ad) = Inr (Some u) \<and> u_isActive u \<and> checkAlertFrequency u ad
        \<and> listenerThrows env \<lparr>em_data = ad, em_user = u\<rparr> = Some e
        \<and> dbFails env (InsertAlertLog ''failed'') = None \<longrightarrow>
        emitted (fst (sendAlert env s ad)) = emitted s
        \<and> alert_logs (fst (sendAlert env s ad)) = alert_logs s @ [logEntry ad ''failed''])"
proof -
  have count: "alerts (fst (sendAndCount env s ad aid)) =
          map (\<lambda>a. if a_id a = aid
                    then a\<lparr>triggerCount := triggerCount a + 1, lastTriggered := Some (dateNow env)\<rparr>
                    else a) (alerts s)"
    if "dbFails env UpdateAlertTrigger = None"
  proof (cases "sendAlert env s ad")
    case (Pair s1 r)
    then have "r = None" and "alerts s1 = alerts s"
      using sendAlert_no_error [of env s ad] sendAlert_alerts [of env s ad] by simp_all
    with Pair that show ?thesis
      by (simp add: sendAndCount_def incrementTriggerCount_def)
  qed
  have sent: "emitted (fst (sendAlert env s ad)) = emitted s @ [\<lparr>em_data = ad, em_user = u\<rparr>]
        \<and> alert_logs (fst (sendAlert env s ad)) = alert_logs s @ [logEntry ad ''sent'']"
    if "getUserById env (ad_userId ad) = Inr (Some u)" "u_isActive u" "checkAlertFrequency u ad"
       "listenerThrows env \<lparr>em_data = ad, em_user = u\<rparr> = None"
       "dbFails env (InsertAlertLog ''sent'') = None"
    using that
    by (simp add: sendAlert_def sendAlert_try_def logAlertToDb_def logEntry_def Let_def)
  have failed: "emitted (fst (sendAlert env s ad)) = emitted s
        \<and> alert_logs (fst (sendAlert env s ad)) = alert_logs s @ [logEntry ad ''failed'']"
    if "getUserById env (ad_userId ad) = Inr (Some u)" "u_isActive u" "checkAlertFrequency u ad"
       "listenerThrows env \<lparr>em_data = ad, em_user = u\<rparr> = Some e"
       "dbFails env (InsertAlertLog ''failed'') = None"
    using that
    by (simp add: sendAlert_def sendAlert_try_def sendAlert_catch_def logAlertToDb_def logEntry_def Let_def)
  show ?thesis
    using count sent failed by (simp add: sendAlert_alerts)
qed

theorem trigger_count_after_every_send_witness:
  "alerts (fst (sendAndCount envListenerDown (store [domainRule 5 9 ''web3.ape''])
             (expiryAlertData (domainRule 5 9 ''web3.ape'') (expiring ''web3.ape'' 3 ''high'')) 5))
     = [stored ((domainRule 5 9 ''web3.ape'')\<lparr>triggerCount := 1, lastTriggered := Some 1000\<rparr>)]
   \<and> emitted (fst (sendAlert envListenerDown (store [domainRule 5 9 ''web3.ape''])
             (expiryAlertData (domainRule 5 9 ''web3.ape'') (expiring ''web3.ape'' 3 ''high'')))) = []
   \<and> alert_logs (fst (sendAlert envListenerDown (store [domainRule 5 9 ''web3.ape''])
             (expiryAlertData (domainRule 5 9 ''web3.ape'') (expiring ''web3.ape'' 3 ''high''))))
     = [logEntry (expiryAlertData (domainRule 5 9 ''web3.ape'') (expiring ''web3.ape'' 3 ''high'')) ''failed'']
   \<and> emitted (fst (sendAlert envAlerts (store [domainRule 5 9 ''web3.ape''])
             (expiryAlertData (domainRule 5 9 ''web3.ape'') (expiring ''web3.ape'' 3 ''high''))))
     = [\<lparr>em_data = expiryAlertData (domainRule 5 9 ''web3.ape'') (expiring ''web3.ape'' 3 ''high''),
         em_user = basicUser\<rparr>]
   \<and> alert_logs (fst (sendAlert envAlerts (store [domainRule 5 9 ''web3.ape''])
             (expiryAlertData (domainRule 5 9 ''web3.ape'') (expiring ''web3.ape'' 3 ''high''))))
     = [logEntry (expiryAlertData (domainRule 5 9 ''web3.ape'') (expiring ''web3.ape'' 3 ''high'')) ''sent'']"
proof -
  let ?ad = "expiryAlertData (domainRule 5 9 ''web3.ape'') (expiring ''web3.ape'' 3 ''high'')"
  let ?s = "store [domainRule 5 9 ''web3.ape'']"
  have u: "getUserById envListenerDown (ad_userId ?ad) = Inr (Some basicUser)"
      "getUserById envAlerts (ad_userId ?ad) = Inr (Some basicUser)"
    by (simp_all add: expiryAlertData_fields rule_fields alert_users)
  have gate: "checkAlertFrequency basicUser ?ad"
    by (simp add: checkAlertFrequency_def user_fields)
  have st: "alerts ?s = [stored (domainRule 5 9 ''web3.ape'')]" "emitted ?s = []" "alert_logs ?s = []"
    by (simp_all add: store_fields)
  from trigger_count_after_every_send
         [where env = envListenerDown and s = "?s" and ad = "?ad" and aid = 5 and u = basicUser
            and e = "Error ''bot offline''"]
       trigger_count_after_every_send
         [where env = envAlerts and s = "?s" and ad = "?ad" and aid = 5 and u = basicUser
            and e = "Error ''bot offline''"]
  show ?thesis
    by (simp add: u gate st user_fields envListenerDown_fields envAlerts_fields rule_fields rule_counts
        stored_fields stored_counted)
qed

text \<open>
  C8 as stated fails on the code: a free-tier owner's expiry rule and an event of urgency
  \<open>medium\<close>. The frequency gate skips the delivery (nothing is emitted, nothing is
  logged), and the rule's \<open>triggerCount\<close> goes from 0 to 1.
\<close>

theorem gated_alert_still_counted:
  "emitted (fst (processExpiryEvent envAlerts (store [domainRule 5 8 ''web3.ape''])
                   (expiring ''web3.ape'' 3 ''medium''))) = []
   \<and> alert_logs (fst (processExpiryEvent envAlerts (store [domainRule 5 8 ''web3.ape''])
                   (expiring ''web3.ape'' 3 ''medium''))) = []
   \<and> map triggerCount (alerts (store [domainRule 5 8 ''web3.ape''])) = [0]
   \<and> map triggerCount (alerts (fst (processExpiryEvent envAlerts (store [domainRule 5 8 ''web3.ape''])
                   (expiring ''web3.ape'' 3 ''medium'')))) = [1]"
  by (simp add: gated_run stored_fields) (simp add: store_fields stored_fields rule_counts)

section \<open>Deduplication of events\<close>









lemma expiry_lookup_failure:
  assumes "getAlertsByDomain env s (e_domain ev) ''expiry'' = Inl e
           \<or> getAlertsByPattern env s (e_domain ev) ''expiry'' = Inl e"
  shows "processExpiryEvent env s ev = (s, None)"
  using assms
  by (auto simp: processExpiryEvent_def processExpiryEvent_try_def catchAll_def Let_def
      split: option.splits sum.splits)









lemma delivered:
  assumes "getUserById env (ad_userId ad) = Inr (Some u)" and "u_isActive u"
      and "checkAlertFrequency u ad" and "listenerThrows env \<lparr>em_data = ad, em_user = u\<rparr> = None"
      and "dbFails env (InsertAlertLog ''sent'') = None"
  shows "sendAlert env s ad =
     (s\<lparr>emitted := emitted s @ [\<lparr>em_data = ad, em_user = u\<rparr>],
        alert_logs := alert_logs s @ [logEntry ad ''sent'']\<rparr>, None)"
  using assms
  by (simp add: sendAlert_def sendAlert_try_def logAlertToDb_def logEntry_def Let_def)

lemma high_delivered:
  assumes "a_userId al = 9"
  shows "sendAlert envAlerts s (expiryAlertData al (expiring d 3 ''high'')) =
     (s\<lparr>emitted := emitted s @
            [\<lparr>em_data = expiryAlertData al (expiring d 3 ''high''), em_user = basicUser\<rparr>],
        alert_logs := alert_logs s @
            [logEntry (expiryAlertData al (expiring d 3 ''high'')) ''sent'']\<rparr>, None)"
  by (rule delivered)
     (simp_all add: expiryAlertData_fields assms alert_users user_fields checkAlertFrequency_def
        envAlerts_fields)

lemma basic_run:
  "fst (processExpiryEvent envAlerts (store [domainRule n 9 ''web3.ape'']) (expiring ''web3.ape'' 3 ''high''))
     = \<lparr>processedEvents = [''0xbbb-expiry''],
        alerts = [stored ((domainRule n 9 ''web3.ape'')\<lparr>triggerCount := 1, lastTriggered := Some 1000\<rparr>)],
        alert_logs = [logEntry (expiryAlertData (domainRule n 9 ''web3.ape'') (expiring ''web3.ape'' 3 ''high'')) ''sent''],
        emitted = [\<lparr>em_data = expiryAlertData (domainRule n 9 ''web3.ape'') (expiring ''web3.ape'' 3 ''high''),
                   em_user = basicUser\<rparr>]\<rparr>"
proof -
  have db: "dbFails envAlerts SelectAlerts = None" "dbFails envAlerts UpdateAlertTrigger = None"
    by (simp_all add: envAlerts_fields)
  show ?thesis
    by (simp add: processExpiryEvent_def processExpiryEvent_try_def catchAll_def expiring_fields
        web3_lookups [OF db(1)] expiryStep_try_def web3_triggers sendAndCount_counts [OF db(2)]
        high_delivered rule_fields Let_def)
       (simp add: store_def storeRows_def setAdd_def cleanOld_def stored_fields stored_counted
          rule_fields rule_counts envAlerts_fields)
qed




section \<open>Isolation of rules\<close>

lemma forEachCaught_append:
  "forEachCaught step s (xs @ ys) = forEachCaught step (forEachCaught step s xs) ys"
  by (induction xs arbitrary: s) simp_all

lemma forEachCaught_preserves:
  assumes "\<And>s x. P s \<Longrightarrow> P (fst (step s x))" and "P s"
  shows "P (forEachCaught step s xs)"
  using assms(2) by (induction xs arbitrary: s) (simp_all add: catchAll_def assms(1))

lemma sendAlert_keeps_emitted:
  assumes "em \<in> set (emitted s)"
  shows "em \<in> set (emitted (fst (sendAlert env s ad)))"
  using assms
  by (simp add: sendAlert_def sendAlert_try_def sendAlert_catch_def logAlertToDb_def Let_def
      split: sum.splits option.splits)

lemma sendAndCount_emitted:
  "emitted (fst (sendAndCount env s ad aid)) = emitted (fst (sendAlert env s ad))"
proof (cases "sendAlert env s ad")
  case (Pair s1 r)
  then show ?thesis
    by (simp add: sendAndCount_def incrementTriggerCount_def split: option.splits)
qed

lemma expiryStep_keeps_emitted:
  assumes "em \<in> set (emitted s)"
  shows "em \<in> set (emitted (fst (expiryStep_try env ev s al)))"
  using assms by (simp add: expiryStep_try_def sendAndCount_emitted sendAlert_keeps_emitted)

lemma expiryStep_emits:
  assumes "shouldTriggerExpiryAlert al ev"
      and "getUserById env (a_userId al) = Inr (Some u)" and "u_isActive u"
      and "checkAlertFrequency u (expiryAlertData al ev)"
      and "listenerThrows env \<lparr>em_data = expiryAlertData al ev, em_user = u\<rparr> = None"
  shows "\<lparr>em_data = expiryAlertData al ev, em_user = u\<rparr> \<in> set (emitted (fst (expiryStep_try env ev s al)))"
  using assms
  by (simp add: expiryStep_try_def sendAndCount_emitted sendAlert_def sendAlert_try_def
      sendAlert_catch_def logAlertToDb_def Let_def expiryAlertData_fields split: option.splits)

lemma rule_isolated:
  assumes "shouldTriggerExpiryAlert al ev"
      and "getUserById env (a_userId al) = Inr (Some u)" and "u_isActive u"
      and "checkAlertFrequency u (expiryAlertData al ev)"
      and "listenerThrows env \<lparr>em_data = expiryAlertData al ev, em_user = u\<rparr> = None"
  shows "\<lparr>em_data = expiryAlertData al ev, em_user = u\<rparr>
           \<in> set (emitted (forEachCaught (expiryStep_try env ev) s (xs @ al # ys)))"
proof -
  let ?em = "\<lparr>em_data = expiryAlertData al ev, em_user = u\<rparr>"
  let ?s1 = "forEachCaught (expiryStep_try env ev) s xs"
  have here: "?em \<in> set (emitted (fst (expiryStep_try env ev ?s1 al)))"
    by (rule expiryStep_emits [OF assms])
  have "?em \<in> set (emitted (forEachCaught (expiryStep_try env ev) (fst (expiryStep_try env ev ?s1 al)) ys))"
    by (rule forEachCaught_preserves [where P = "\<lambda>s. ?em \<in> set (emitted s)"])
       (simp_all add: expiryStep_keeps_emitted here)
  then show ?thesis
    by (simp add: forEachCaught_append catchAll_def)
qed

text \<open>
  What does hold of the isolation of rules in \<open>processExpiryEvent\<close>: once both lookups
  have returned their lists, every rule of the merged list whose conditions pass and whose
  delivery can go through is emitted by the call, whatever the steps of the other rules
  of the list do.
\<close>

theorem delivered_whatever_other_rules_do:
  assumes "blockData ev = Some bd" and "transactionHash bd @ ''-expiry'' \<notin> set (processedEvents s)"
      and "getAlertsByDomain env s (e_domain ev) ''expiry'' = Inr ds"
      and "getAlertsByPattern env s (e_domain ev) ''expiry'' = Inr ps"
      and "al \<in> set (ds @ ps)" and "shouldTriggerExpiryAlert al ev"
      and "getUserById env (a_userId al) = Inr (Some u)" and "u_isActive u"
      and "checkAlertFrequency u (expiryAlertData al ev)"
      and "listenerThrows env \<lparr>em_data = expiryAlertData al ev, em_user = u\<rparr> = None"
  shows "\<lparr>em_data = expiryAlertData al ev, em_user = u\<rparr>
           \<in> set (emitted (fst (processExpiryEvent env s ev)))"
proof -
  from assms(5) obtain xs ys where split: "ds @ ps = xs @ al # ys"
    by (meson split_list)
  have "\<lparr>em_data = expiryAlertData al ev, em_user = u\<rparr>
          \<in> set (emitted (forEachCaught (expiryStep_try env ev) s (xs @ al # ys)))"
    by (rule rule_isolated [OF assms(6-10)])
  with assms(1-4) split show ?thesis
    by (simp add: processExpiryEvent_def processExpiryEvent_try_def catchAll_def Let_def)
qed

lemma two_rules_lookups:
  assumes "dbFails env SelectAlerts = None"
  shows "getAlertsByDomain env (store [domainRule 5 9 d, domainRule 6 9 d]) d ''expiry''
           = Inr [domainRule 5 9 d, domainRule 6 9 d]"
    and "getAlertsByPattern env (store [domainRule 5 9 d, domainRule 6 9 d]) d ''expiry'' = Inr []"
  by (rule direct_lookup [OF assms], auto simp: rule_columns)
     (rule no_pattern_lookup [OF assms], auto simp: rule_columns)

theorem delivered_whatever_other_rules_do_witness:
  "listenerThrows envFlaky
        \<lparr>em_data = expiryAlertData (domainRule 5 9 ''web3.ape'') (expiring ''web3.ape'' 3 ''high''),
          em_user = basicUser\<rparr> = Some (Error ''bot offline'')
   \<and> \<lparr>em_data = expiryAlertData (domainRule 6 9 ''web3.ape'') (expiring ''web3.ape'' 3 ''high''),
       em_user = basicUser\<rparr>
     \<in> set (emitted (fst (processExpiryEvent envFlaky
                (store [domainRule 5 9 ''web3.ape'', domainRule 6 9 ''web3.ape''])
                (expiring ''web3.ape'' 3 ''high''))))"
proof -
  let ?ev = "expiring ''web3.ape'' 3 ''high''"
  have flaky: "getUserById envFlaky 9 = Inr (Some basicUser)" "dbFails envFlaky SelectAlerts = None"
      "listenerThrows envFlaky \<lparr>em_data = expiryAlertData (domainRule n 9 ''web3.ape'') ?ev, em_user = basicUser\<rparr>
         = (if n = 5 then Some (Error ''bot offline'') else None)" for n
    by (simp_all add: getUserById_def envFlaky_def envAlerts_def env0_def freeUser_def basicUser_def
        expiryAlertData_fields rule_fields)
  have gate: "checkAlertFrequency basicUser ad" for ad
    by (simp add: checkAlertFrequency_def user_fields)
  from delivered_whatever_other_rules_do [where env = envFlaky and ev = "?ev"
         and bd = "\<lparr>transactionHash = ''0xbbb'', blockNumber = 8\<rparr>"
         and s = "store [domainRule 5 9 ''web3.ape'', domainRule 6 9 ''web3.ape'']"
         and ds = "[domainRule 5 9 ''web3.ape'', domainRule 6 9 ''web3.ape'']" and ps = "[]"
         and al = "domainRule 6 9 ''web3.ape''" and u = basicUser]
  show ?thesis
    by (simp add: expiring_fields store_fields two_rules_lookups [OF flaky(2)] web3_triggers rule_fields
        flaky gate user_fields)
qed

lemma bad_row_lookup:
  assumes "dbFails env SelectAlerts = None"
  shows "getAlertsByDomain env (storeRows [stored (domainRule 6 9 d), unparseable (domainRule 5 9 d)]) d ''expiry''
           = Inl (SyntaxError ''Unexpected token in JSON'')"
  using assms
  by (simp add: getAlertsByDomain_def storeRows_def stored_fields unparseable_fields rule_columns
      parse_stored parse_unparseable)

text \<open>
  C9. A rule whose stored \<open>conditions\<close> is not JSON stops the processing of the other
  rules of the same event. Two expiry rules of a basic-tier owner on \<open>web3.ape\<close>: rule 6
  as it was created, rule 5 after a string that is not JSON was stored as its
  \<open>conditions\<close>. The lookup parses every row before the loop over the rules starts, so it
  rejects; the handler's outer \<open>catch\<close> logs the error and the event is dropped: rule 6
  is not dispatched and the event is not recorded. With rule 6 alone in the table the same
  event is dispatched to it.
\<close>

theorem unparseable_rule_drops_event:
  "getAlertsByDomain envAlerts
       (storeRows [stored (domainRule 6 9 ''web3.ape''), unparseable (domainRule 5 9 ''web3.ape'')])
       ''web3.ape'' ''expiry''
     = Inl (SyntaxError ''Unexpected token in JSON'')
   \<and> processExpiryEvent envAlerts
       (storeRows [stored (domainRule 6 9 ''web3.ape''), unparseable (domainRule 5 9 ''web3.ape'')])
       (expiring ''web3.ape'' 3 ''high'')
     = (storeRows [stored (domainRule 6 9 ''web3.ape''), unparseable (domainRule 5 9 ''web3.ape'')], None)
   \<and> emitted (storeRows [stored (domainRule 6 9 ''web3.ape''), unparseable (domainRule 5 9 ''web3.ape'')]) = []
   \<and> emitted (fst (processExpiryEvent envAlerts (storeRows [stored (domainRule 6 9 ''web3.ape'')])
                      (expiring ''web3.ape'' 3 ''high'')))
     = [\<lparr>em_data = expiryAlertData (domainRule 6 9 ''web3.ape'') (expiring ''web3.ape'' 3 ''high''),
         em_user = basicUser\<rparr>]"
proof -
  have db: "dbFails envAlerts SelectAlerts = None"
    by (simp add: envAlerts_fields)
  have alone: "storeRows [stored (domainRule 6 9 ''web3.ape'')] = store [domainRule 6 9 ''web3.ape'']"
    by (simp add: store_def)
  show ?thesis
    using expiry_lookup_failure [where env = envAlerts and ev = "expiring ''web3.ape'' 3 ''high''"
        and e = "SyntaxError ''Unexpected token in JSON''"
        and s = "storeRows [stored (domainRule 6 9 ''web3.ape''), unparseable (domainRule 5 9 ''web3.ape'')]"]
    by (simp add: bad_row_lookup [OF db] expiring_fields alone basic_run) (simp add: storeRows_def)
qed

section \<open>A rule returned by both lookups\<close>

lemma literal_pattern_lookups:
  "getAlertsByDomain envAlerts (store [patternRule 5 9 ''web3.ape'']) ''web3.ape'' ''expiry''
     = Inr [patternRule 5 9 ''web3.ape'']"
  "getAlertsByPattern envAlerts (store [patternRule 5 9 ''web3.ape'']) ''web3.ape'' ''expiry''
     = Inr [patternRule 5 9 ''web3.ape'']"
proof -
  have db: "dbFails envAlerts SelectAlerts = None"
    by (simp add: envAlerts_fields)
  have m: "likePatternTest envAlerts ''web3.ape'' ''web3.ape''"
    by (simp add: regex_defs)
  show "getAlertsByDomain envAlerts (store [patternRule 5 9 ''web3.ape'']) ''web3.ape'' ''expiry''
     = Inr [patternRule 5 9 ''web3.ape'']"
    by (rule direct_lookup [OF db]) (simp add: rule_columns)
  show "getAlertsByPattern envAlerts (store [patternRule 5 9 ''web3.ape'']) ''web3.ape'' ''expiry''
     = Inr [patternRule 5 9 ''web3.ape'']"
    using m by (simp add: getAlertsByPattern_def envAlerts_fields store_fields stored_fields rule_columns
        parse_stored)
qed

lemma pattern_triggers: "shouldTriggerExpiryAlert (patternRule n uid d) (expiring d' 3 u)"
  by (simp add: shouldTriggerExpiryAlert_def patternRule_def noConditions_def expiring_fields)

text \<open>
  A rule whose \<open>domainPattern\<close> is the event's domain itself is returned by
  \<open>getAlertsByDomain\<close> (through \<open>domainPattern = ?\<close>) and by \<open>getAlertsByPattern\<close>; the merged
  list holds it twice, and one call dispatches it twice and counts two triggers.
\<close>

theorem literal_pattern_dispatched_twice:
  "dispatchCount 5 (fst (processExpiryEvent envAlerts (store [patternRule 5 9 ''web3.ape''])
                           (expiring ''web3.ape'' 3 ''high''))) = 2
   \<and> map triggerCount (alerts (fst (processExpiryEvent envAlerts (store [patternRule 5 9 ''web3.ape''])
                           (expiring ''web3.ape'' 3 ''high'')))) = [2]"
proof -
  have db: "dbFails envAlerts UpdateAlertTrigger = None"
    by (simp add: envAlerts_fields)
  show ?thesis
    by (simp add: processExpiryEvent_def processExpiryEvent_try_def catchAll_def expiring_fields
        literal_pattern_lookups expiryStep_try_def pattern_triggers sendAndCount_counts [OF db]
        high_delivered rule_fields Let_def dispatchCount_def)
       (simp add: store_fields stored_fields rule_fields rule_counts expiryAlertData_fields)
qed

end
